theory Spec2Isabelle
  imports Complex_Main "HOL-Library.Word"
begin

unbundle bit_operations_syntax

section \<open>JavaScript values\<close>

text \<open>
  The handlers of the repository receive their input through \<open>request.json()\<close> and
  \<open>JSON.parse\<close>, so every value they inspect is a JSON value, or \<open>undefined\<close> when a
  property is missing. Strings are modelled as \<open>string\<close>: the UTF-8 byte sequence of the
  JavaScript string, which is what \<open>Buffer.from\<close> yields and on which emptiness, equality
  with an ASCII literal, digit filtering and \<open>startsWith\<close> agree with the code. Numbers are
  IEEE-754 doubles: a finite double is the rational it denotes (the two zeros are
  identified; nothing in the code tells them apart).
\<close>

datatype num = Fin rat | PosInf | NegInf | NaN

datatype jsval =
    Undefined
  | Null
  | Bool bool
  | Num num
  | Str string
  | Arr "jsval list"
  | Obj "(string \<times> jsval) list"

text \<open>
  \<open>Obj kvs\<close> lists the own properties of a plain object in enumeration order;
  a lookup takes the first binding of a key.
\<close>

datatype exn =
    NullProperty string
  | NotCallable string
  | InvalidArgument
  | LengthMismatch
  | NotJSON
  | Rejected string

text \<open>
  \<open>NullProperty p\<close>: the TypeError of reading property \<open>p\<close> of \<open>null\<close> or \<open>undefined\<close>;
  \<open>NotCallable m\<close>: the TypeError of calling \<open>x.m(...)\<close> where \<open>x.m\<close> is no function;
  \<open>InvalidArgument\<close>: the TypeError of a Node API given an argument of the wrong type;
  \<open>LengthMismatch\<close>: the RangeError of \<open>crypto.timingSafeEqual\<close> on buffers of different
  byte length; \<open>NotJSON\<close>: the SyntaxError of parsing a text that is no JSON;
  \<open>Rejected m\<close>: an \<open>Error\<close> with message \<open>m\<close> coming from the environment
  (a rejected \<open>fetch\<close>, \<open>request.json()\<close> or attribution call).
\<close>

text \<open>
  What the runtime (V8, Node's \<open>crypto\<close> and \<open>Buffer\<close>) provides and the repository only
  calls. \<open>hmac_sha256 key msg\<close> is the 32-byte digest of
  \<open>crypto.createHmac("sha256", key).update(msg).digest()\<close>.
\<close>

record engine =
  hmac_sha256 :: "string \<Rightarrow> string \<Rightarrow> 256 word"
  number_toString :: "rat \<Rightarrow> string"
  string_toNumber :: "string \<Rightarrow> num"
  buffer_from_other :: "jsval \<Rightarrow> string option"
  date_toISOString :: "int \<Rightarrow> string"
  error_text :: "exn \<Rightarrow> string"

definition message :: "engine \<Rightarrow> exn \<Rightarrow> string" where
  "message e x = (case x of Rejected m \<Rightarrow> m | _ \<Rightarrow> error_text e x)"

definition try_catch :: "exn + 'a \<Rightarrow> (exn \<Rightarrow> exn + 'a) \<Rightarrow> exn + 'a" where
  "try_catch body handler = (case body of Inl x \<Rightarrow> handler x | Inr v \<Rightarrow> Inr v)"

definition bind :: "exn + 'a \<Rightarrow> ('a \<Rightarrow> exn + 'b) \<Rightarrow> exn + 'b" where
  "bind m f = (case m of Inl x \<Rightarrow> Inl x | Inr v \<Rightarrow> f v)"

subsection \<open>Truthiness, property access\<close>

fun truthy :: "jsval \<Rightarrow> bool" where
  "truthy Undefined = False"
| "truthy Null = False"
| "truthy (Bool b) = b"
| "truthy (Num n) = (n \<noteq> Fin 0 \<and> n \<noteq> NaN)"
| "truthy (Str s) = (s \<noteq> [])"
| "truthy (Arr xs) = True"
| "truthy (Obj kvs) = True"

definition lor :: "jsval \<Rightarrow> jsval \<Rightarrow> jsval" where
  "lor a b = (if truthy a then a else b)"

text \<open>
  The \<open>length\<close> of a string counts UTF-16 code units: per UTF-8 sequence one, or two
  when it has four bytes.
\<close>

definition utf16_units :: "char \<Rightarrow> nat" where
  "utf16_units c =
     (let b = (of_char c :: nat)
      in if b < 0x80 then 1 else if b < 0xC0 then 0 else if b < 0xF0 then 1 else 2)"

definition utf16_length :: "string \<Rightarrow> nat" where
  "utf16_length s = sum_list (map utf16_units s)"

text \<open>
  \<open>get v p\<close> is \<open>v.p\<close> for the property names the handlers read (none of them is an
  index or a name on a built-in prototype, except \<open>length\<close>).
\<close>

fun get :: "jsval \<Rightarrow> string \<Rightarrow> exn + jsval" where
  "get Undefined p = Inl (NullProperty p)"
| "get Null p = Inl (NullProperty p)"
| "get (Obj kvs) p = Inr (case map_of kvs p of None \<Rightarrow> Undefined | Some v \<Rightarrow> v)"
| "get (Arr xs) p = Inr (if p = ''length'' then Num (Fin (of_nat (length xs))) else Undefined)"
| "get (Str s) p = Inr (if p = ''length'' then Num (Fin (of_nat (utf16_length s))) else Undefined)"
| "get (Num n) p = Inr Undefined"
| "get (Bool b) p = Inr Undefined"

text \<open>\<open>opt v p\<close> is the optional chain \<open>v?.p\<close>.\<close>

fun opt :: "jsval \<Rightarrow> string \<Rightarrow> jsval" where
  "opt Undefined p = Undefined"
| "opt Null p = Undefined"
| "opt v p = (case get v p of Inl x \<Rightarrow> Undefined | Inr w \<Rightarrow> w)"

text \<open>\<open>field_of v p\<close> is \<open>v.p\<close> where \<open>v\<close> is known not to be \<open>null\<close> or \<open>undefined\<close>.\<close>

definition field_of :: "jsval \<Rightarrow> string \<Rightarrow> jsval" where
  "field_of v p = (case get v p of Inl x \<Rightarrow> Undefined | Inr w \<Rightarrow> w)"

subsection \<open>JSON.stringify\<close>

definition hexdigit :: "nat \<Rightarrow> char" where
  "hexdigit n = ''0123456789abcdef'' ! (n mod 16)"

definition escape :: "char \<Rightarrow> string" where
  "escape c =
     (if c = CHR 0x22 then [CHR 0x5C, CHR 0x22]
      else if c = CHR 0x5C then [CHR 0x5C, CHR 0x5C]
      else if c = CHR 0x08 then [CHR 0x5C, CHR ''b'']
      else if c = CHR 0x09 then [CHR 0x5C, CHR ''t'']
      else if c = CHR 0x0A then [CHR 0x5C, CHR ''n'']
      else if c = CHR 0x0C then [CHR 0x5C, CHR ''f'']
      else if c = CHR 0x0D then [CHR 0x5C, CHR ''r'']
      else if of_char c < (0x20 :: nat)
        then [CHR 0x5C, CHR ''u'', CHR ''0'', CHR ''0'',
              hexdigit (of_char c div 16), hexdigit (of_char c)]
      else [c])"

definition quote :: "string \<Rightarrow> string" where
  "quote s = CHR 0x22 # concat (map escape s) @ [CHR 0x22]"

fun join :: "string list \<Rightarrow> string" where
  "join [] = []"
| "join [s] = s"
| "join (s # t # ts) = s @ '','' @ join (t # ts)"

text \<open>
  \<open>JSON.stringify v\<close>; \<open>None\<close> is the result \<open>undefined\<close>. A JSON value has no cycle, no
  \<open>toJSON\<close> and no BigInt, so the call itself does not throw.
\<close>

fun JSON_stringify :: "engine \<Rightarrow> jsval \<Rightarrow> string option"
  and stringify_elems :: "engine \<Rightarrow> jsval list \<Rightarrow> string list"
  and stringify_props :: "engine \<Rightarrow> (string \<times> jsval) list \<Rightarrow> string list"
where
  "JSON_stringify e Undefined = None"
| "JSON_stringify e Null = Some ''null''"
| "JSON_stringify e (Bool b) = Some (if b then ''true'' else ''false'')"
| "JSON_stringify e (Num n) = Some (case n of Fin q \<Rightarrow> number_toString e q | _ \<Rightarrow> ''null'')"
| "JSON_stringify e (Str s) = Some (quote s)"
| "JSON_stringify e (Arr xs) = Some (''['' @ join (stringify_elems e xs) @ '']'')"
| "JSON_stringify e (Obj kvs) = Some (''{'' @ join (stringify_props e kvs) @ ''}'')"
| "stringify_elems e [] = []"
| "stringify_elems e (x # xs) =
     (case JSON_stringify e x of None \<Rightarrow> ''null'' | Some s \<Rightarrow> s) # stringify_elems e xs"
| "stringify_props e [] = []"
| "stringify_props e ((k, v) # kvs) =
     (case JSON_stringify e v of
        None \<Rightarrow> stringify_props e kvs
      | Some s \<Rightarrow> (quote k @ '':'' @ s) # stringify_props e kvs)"

subsection \<open>Numbers: IEEE-754 binary64 arithmetic\<close>

function ilog2 :: "int \<Rightarrow> int" where
  "ilog2 n = (if n < 2 then 0 else 1 + ilog2 (n div 2))"
  by pat_completeness auto
termination
  by (relation "measure nat") auto

declare ilog2.simps [simp del]

definition pow2 :: "int \<Rightarrow> rat" where
  "pow2 k = (if 0 \<le> k then 2 ^ nat k else 1 / 2 ^ nat (- k))"

text \<open>\<open>floor_log2 q\<close>, for \<open>q > 0\<close>, is the \<open>k\<close> with \<open>2^k \<le> q < 2^(k+1)\<close>.\<close>

definition floor_log2 :: "rat \<Rightarrow> int" where
  "floor_log2 q =
     (if 1 \<le> q then ilog2 \<lfloor>q\<rfloor>
      else let j = ilog2 \<lfloor>1 / q\<rfloor> in if q = pow2 (- j) then - j else - j - 1)"

definition round_half_even :: "rat \<Rightarrow> int" where
  "round_half_even q =
     (let f = \<lfloor>q\<rfloor>; r = q - of_int f
      in if r < 1 / 2 then f else if 1 / 2 < r then f + 1 else if even f then f else f + 1)"

text \<open>
  \<open>to_double q\<close> is the double nearest to the real number \<open>q\<close>, ties to the even
  significand (53 bits, least exponent \<open>-1074\<close>), overflowing to an infinity: the result
  of every IEEE operation whose exact result is \<open>q\<close>, and the value of a decimal literal.
\<close>

definition to_double :: "rat \<Rightarrow> num" where
  "to_double q =
     (if q = 0 then Fin 0
      else let a = \<bar>q\<bar>;
               p = max (floor_log2 a - 52) (- 1074);
               v = of_int (round_half_even (a / pow2 p)) * pow2 p
           in if pow2 1024 \<le> v then (if 0 < q then PosInf else NegInf)
              else Fin (if 0 < q then v else - v))"

text \<open>The operator \<open>*\<close> on numbers.\<close>

fun mul :: "num \<Rightarrow> num \<Rightarrow> num" where
  "mul NaN y = NaN"
| "mul x NaN = NaN"
| "mul (Fin a) (Fin b) = to_double (a * b)"
| "mul (Fin a) PosInf = (if a = 0 then NaN else if 0 < a then PosInf else NegInf)"
| "mul (Fin a) NegInf = (if a = 0 then NaN else if 0 < a then NegInf else PosInf)"
| "mul PosInf (Fin b) = (if b = 0 then NaN else if 0 < b then PosInf else NegInf)"
| "mul NegInf (Fin b) = (if b = 0 then NaN else if 0 < b then NegInf else PosInf)"
| "mul PosInf PosInf = PosInf"
| "mul PosInf NegInf = NegInf"
| "mul NegInf PosInf = NegInf"
| "mul NegInf NegInf = PosInf"

text \<open>\<open>Math.round\<close>: the nearest integer, a tie going up (towards \<open>+\<infinity>\<close>).\<close>

fun Math_round :: "num \<Rightarrow> num" where
  "Math_round (Fin q) = Fin (of_int \<lfloor>q + 1 / 2\<rfloor>)"
| "Math_round x = x"

text \<open>\<open>x <= 0\<close> on numbers.\<close>

fun le_zero :: "num \<Rightarrow> bool" where
  "le_zero (Fin q) = (q \<le> 0)"
| "le_zero NegInf = True"
| "le_zero PosInf = False"
| "le_zero NaN = False"

subsection \<open>Coercions\<close>

definition num_toString :: "engine \<Rightarrow> num \<Rightarrow> string" where
  "num_toString e n =
     (case n of Fin q \<Rightarrow> number_toString e q | PosInf \<Rightarrow> ''Infinity''
      | NegInf \<Rightarrow> ''-Infinity'' | NaN \<Rightarrow> ''NaN'')"

fun ToString :: "engine \<Rightarrow> jsval \<Rightarrow> string"
  and ToString_elems :: "engine \<Rightarrow> jsval list \<Rightarrow> string list"
where
  "ToString e Undefined = ''undefined''"
| "ToString e Null = ''null''"
| "ToString e (Bool b) = (if b then ''true'' else ''false'')"
| "ToString e (Num n) = num_toString e n"
| "ToString e (Str s) = s"
| "ToString e (Arr xs) = join (ToString_elems e xs)"
| "ToString e (Obj kvs) = ''[object Object]''"
| "ToString_elems e [] = []"
| "ToString_elems e (x # xs) =
     (if x = Undefined \<or> x = Null then [] else ToString e x) # ToString_elems e xs"

fun ToNumber :: "engine \<Rightarrow> jsval \<Rightarrow> num" where
  "ToNumber e Undefined = NaN"
| "ToNumber e Null = Fin 0"
| "ToNumber e (Bool b) = Fin (if b then 1 else 0)"
| "ToNumber e (Num n) = n"
| "ToNumber e (Str s) = string_toNumber e s"
| "ToNumber e v = string_toNumber e (ToString e v)"

subsection \<open>Strings\<close>

definition is_digit :: "char \<Rightarrow> bool" where
  "is_digit c = (48 \<le> (of_char c :: nat) \<and> (of_char c :: nat) \<le> 57)"

text \<open>\<open>x.replace(/\D/g, "")\<close>: on a string it keeps the digits; nothing else has the method.\<close>

fun replace_non_digits :: "jsval \<Rightarrow> exn + string" where
  "replace_non_digits (Str s) = Inr (filter is_digit s)"
| "replace_non_digits Undefined = Inl (NullProperty ''replace'')"
| "replace_non_digits Null = Inl (NullProperty ''replace'')"
| "replace_non_digits v = Inl (NotCallable ''replace'')"

definition startsWith :: "string \<Rightarrow> string \<Rightarrow> bool" where
  "startsWith s p = (take (length p) s = p)"

text \<open>The decimal text of a natural number.\<close>

fun digits :: "nat \<Rightarrow> string" where
  "digits n =
     (if n < 10 then [''0123456789'' ! n] else digits (n div 10) @ [''0123456789'' ! (n mod 10)])"

declare digits.simps [simp del]

text \<open>The short-circuit \<open>a || b\<close> where evaluating an operand may throw.\<close>

definition lor_m :: "exn + jsval \<Rightarrow> exn + jsval \<Rightarrow> exn + jsval" where
  "lor_m a b = bind a (\<lambda>v. if truthy v then Inr v else b)"

section \<open>lib/trexpay.ts: verifyWebhookSignature\<close>

text \<open>\<open>digest("hex")\<close>: the 32 bytes of the digest as 64 lowercase hex digits.\<close>

definition hex_digest :: "256 word \<Rightarrow> string" where
  "hex_digest w = map (\<lambda>i. hexdigit (unat (drop_bit (4 * (63 - i)) w AND 15))) [0..<64]"

definition Buffer_from :: "engine \<Rightarrow> jsval \<Rightarrow> exn + string" where
  "Buffer_from e v =
     (case v of
        Str s \<Rightarrow> Inr s
      | _ \<Rightarrow> (case buffer_from_other e v of None \<Rightarrow> Inl InvalidArgument | Some b \<Rightarrow> Inr b))"

definition timingSafeEqual :: "string \<Rightarrow> string \<Rightarrow> exn + bool" where
  "timingSafeEqual a b = (if length a \<noteq> length b then Inl LengthMismatch else Inr (a = b))"

text \<open>
  The expected signature; \<open>update(undefined)\<close> throws when the payload has no
  serialization.
\<close>

definition expectedSignature :: "engine \<Rightarrow> jsval \<Rightarrow> string \<Rightarrow> exn + string" where
  "expectedSignature e payload secret =
     (case JSON_stringify e payload of
        None \<Rightarrow> Inl InvalidArgument
      | Some msg \<Rightarrow> Inr (''sha256='' @ hex_digest (hmac_sha256 e secret msg)))"

text \<open>The body of the \<open>try\<close> block (lines 97 to 115).\<close>

definition verify_try :: "engine \<Rightarrow> jsval \<Rightarrow> jsval \<Rightarrow> string \<Rightarrow> exn + bool" where
  "verify_try e payload signature secret =
     bind (expectedSignature e payload secret) (\<lambda>expected.
     bind (Buffer_from e signature) (\<lambda>signatureBuffer.
     bind (Buffer_from e (Str expected)) (\<lambda>expectedBuffer.
       if length signatureBuffer \<noteq> length expectedBuffer then Inr False
       else timingSafeEqual signatureBuffer expectedBuffer)))"

definition verifyWebhookSignature :: "engine \<Rightarrow> jsval \<Rightarrow> jsval \<Rightarrow> string \<Rightarrow> exn + bool" where
  "verifyWebhookSignature e payload signature secret =
     try_catch (verify_try e payload signature secret) (\<lambda>error. Inr False)"


section \<open>lib/trexpay.ts: the gateway client\<close>

record http_request =
  req_url :: string
  req_body :: "string option"

text \<open>
  The gateway as seen through \<open>fetch\<close>: \<open>Inl\<close> when the request or the reading of the
  reply fails (the promise rejects), otherwise the HTTP status and the result of parsing the
  body text as JSON, \<open>None\<close> when the text is no JSON.
\<close>

type_synonym gateway = "http_request \<Rightarrow> exn + nat \<times> jsval option"

record env =
  TREXPAY_TOKEN :: "string option"
  TREXPAY_SECRET :: "string option"
  VERCEL_URL :: "string option"
  NEXT_PUBLIC_SITE_URL :: "string option"

text \<open>An environment variable is falsy when unset or empty.\<close>

definition configured :: "string option \<Rightarrow> bool" where
  "configured v = (case v of None \<Rightarrow> False | Some s \<Rightarrow> s \<noteq> [])"

definition TREXPAY_BASE_URL :: string where
  "TREXPAY_BASE_URL = ''https://app.trexpay.com.br''"

definition ok :: "nat \<Rightarrow> bool" where
  "ok code = (200 \<le> code \<and> code \<le> 299)"

definition formatDocument :: "jsval \<Rightarrow> exn + string" where
  "formatDocument document = replace_non_digits document"

definition formatPhone :: "jsval \<Rightarrow> exn + string" where
  "formatPhone phone =
     bind (replace_non_digits phone) (\<lambda>cleaned.
       Inr (if startsWith cleaned ''55'' then ''+'' @ cleaned else ''+55'' @ cleaned))"

record deposit_params =
  amount :: jsval
  customerName :: jsval
  customerEmail :: jsval
  customerDocument :: jsval
  customerPhone :: jsval
  postbackUrl :: string
  tracking_params :: jsval

text \<open>\<open>v.p1 || v.p2 || ... || v.pn\<close>.\<close>

fun first_truthy :: "jsval \<Rightarrow> string list \<Rightarrow> exn + jsval" where
  "first_truthy v [] = Inr Undefined"
| "first_truthy v [p] = get v p"
| "first_truthy v (p # ps) = lor_m (get v p) (first_truthy v ps)"

text \<open>The request body (lines 180 to 204): the fields, those left \<open>undefined\<close> deleted.\<close>

definition requestBody :: "string \<Rightarrow> string \<Rightarrow> deposit_params \<Rightarrow> exn + jsval" where
  "requestBody token secret params =
     bind (formatDocument (customerDocument params)) (\<lambda>document.
     bind (formatPhone (customerPhone params)) (\<lambda>phone.
       Inr (Obj (filter (\<lambda>(k, v). v \<noteq> Undefined)
         [(''token'', Str token),
          (''secret'', Str secret),
          (''postback'', Str (postbackUrl params)),
          (''amount'', amount params),
          (''debtor_name'', customerName params),
          (''email'', customerEmail params),
          (''debtor_document_number'', Str document),
          (''phone'', Str phone),
          (''method_pay'', Str ''pix''),
          (''src'', opt (tracking_params params) ''src''),
          (''sck'', opt (tracking_params params) ''sck''),
          (''utm_source'', opt (tracking_params params) ''utm_source''),
          (''utm_campaign'', opt (tracking_params params) ''utm_campaign''),
          (''utm_medium'', opt (tracking_params params) ''utm_medium''),
          (''utm_content'', opt (tracking_params params) ''utm_content''),
          (''utm_term'', opt (tracking_params params) ''utm_term'')]))))"

definition deposit_failure :: "jsval \<Rightarrow> jsval \<Rightarrow> jsval" where
  "deposit_failure code msg = Obj [(''success'', Bool False), (''error'', code), (''message'', msg)]"

definition INVALID_CREDENTIALS_message :: string where
  "INVALID_CREDENTIALS_message =
     ''Credenciais da TrexPay n'' @ [CHR 0xC3, CHR 0xA3] @ ''o configuradas. Verifique as vari''
     @ [CHR 0xC3, CHR 0xA1] @ ''veis TREXPAY_TOKEN e TREXPAY_SECRET.''"

definition PARSE_ERROR_message :: string where
  "PARSE_ERROR_message = ''Resposta inv'' @ [CHR 0xC3, CHR 0xA1] @ ''lida da TrexPay''"

definition NETWORK_ERROR_prefix :: string where
  "NETWORK_ERROR_prefix = ''Erro de conex'' @ [CHR 0xC3, CHR 0xA3] @ ''o com a TrexPay: ''"

text \<open>The \<open>try\<close> block of createPixDeposit (lines 213 to 270).\<close>

definition deposit_try :: "engine \<Rightarrow> gateway \<Rightarrow> http_request \<Rightarrow> exn + jsval" where
  "deposit_try e fetch req =
     bind (fetch req) (\<lambda>(code, parsed).
       case parsed of
         None \<Rightarrow> Inr (deposit_failure (Str ''PARSE_ERROR'') (Str PARSE_ERROR_message))
       | Some data \<Rightarrow>
           if \<not> ok code then
             bind (lor_m (get data ''error'') (Inr (Str ''API_ERROR''))) (\<lambda>err.
             bind (lor_m (lor_m (get data ''message'') (get data ''error''))
                         (Inr (Str (''Erro HTTP '' @ digits code)))) (\<lambda>msg.
               Inr (deposit_failure err msg)))
           else
             bind (lor_m (get data ''data'') (Inr data)) (\<lambda>responseData.
             bind (lor_m (first_truthy responseData [''idTransaction'', ''id_transaction'', ''id''])
                         (get data ''idTransaction'')) (\<lambda>transactionId.
             bind (first_truthy responseData [''qrCode'', ''qr_code'', ''qrcode'']) (\<lambda>qrCode.
             bind (first_truthy responseData
                     [''qrCodeBase64'', ''qr_code_base64'', ''qrcodeBase64'']) (\<lambda>qrCodeBase64.
             bind (first_truthy responseData
                     [''pixKey'', ''pix_key'', ''copiaecola'', ''copia_e_cola'', ''emv'']) (\<lambda>pixKey.
             bind (first_truthy responseData
                     [''expiresAt'', ''expires_at'', ''expiration'']) (\<lambda>expiresAt.
               Inr (Obj [(''success'', Bool True),
                         (''idTransaction'', transactionId),
                         (''qrCode'', qrCode),
                         (''qrCodeBase64'', qrCodeBase64),
                         (''pixKey'', pixKey),
                         (''expiresAt'', expiresAt)]))))))))"

text \<open>
  createPixDeposit: its outcome (\<open>Inl\<close> when it raises to the caller) and the requests it
  sent to the gateway. Every error the model has is an \<open>Error\<close> instance, so the handler
  of the \<open>catch\<close> takes \<open>error.message\<close>.
\<close>

definition createPixDeposit ::
  "engine \<Rightarrow> env \<Rightarrow> gateway \<Rightarrow> deposit_params \<Rightarrow> (exn + jsval) \<times> http_request list" where
  "createPixDeposit e ev fetch params =
     (case (TREXPAY_TOKEN ev, TREXPAY_SECRET ev) of
        (Some token, Some secret) \<Rightarrow>
          if token = [] \<or> secret = [] then
            (Inr (deposit_failure (Str ''INVALID_CREDENTIALS'') (Str INVALID_CREDENTIALS_message)), [])
          else
            (case requestBody token secret params of
               Inl x \<Rightarrow> (Inl x, [])
             | Inr rb \<Rightarrow>
                 let req = \<lparr> req_url = TREXPAY_BASE_URL @ ''/api/wallet/deposit/payment'',
                             req_body = JSON_stringify e rb \<rparr>
                 in (try_catch (deposit_try e fetch req) (\<lambda>error.
                       Inr (deposit_failure (Str ''NETWORK_ERROR'')
                              (Str (NETWORK_ERROR_prefix @ message e error)))),
                     [req]))
      | _ \<Rightarrow>
          (Inr (deposit_failure (Str ''INVALID_CREDENTIALS'') (Str INVALID_CREDENTIALS_message)), []))"

text \<open>The \<open>try\<close> block of getPixStatus (lines 291 to 320).\<close>

definition status_try :: "gateway \<Rightarrow> http_request \<Rightarrow> string \<Rightarrow> exn + jsval" where
  "status_try fetch req idTransaction =
     bind (fetch req) (\<lambda>(code, parsed).
       case parsed of
         None \<Rightarrow> Inl NotJSON
       | Some data \<Rightarrow>
           if \<not> ok code then
             bind (lor_m (get data ''error'') (Inr (Str ''API_ERROR''))) (\<lambda>err.
               Inr (Obj [(''success'', Bool False),
                         (''idTransaction'', Str idTransaction),
                         (''status'', Str ''pending''),
                         (''error'', err)]))
           else
             bind (get data ''status'') (\<lambda>st.
             bind (get data ''amount'') (\<lambda>amt.
             bind (get data ''paid_at'') (\<lambda>paid_at.
               Inr (Obj [(''success'', Bool True),
                         (''idTransaction'', Str idTransaction),
                         (''status'', st),
                         (''amount'', amt),
                         (''paid_at'', paid_at)])))))"

definition getPixStatus ::
  "engine \<Rightarrow> gateway \<Rightarrow> string \<Rightarrow> (exn + jsval) \<times> http_request list" where
  "getPixStatus e fetch idTransaction =
     (let req = \<lparr> req_url = TREXPAY_BASE_URL @ ''/api/status'',
                  req_body = JSON_stringify e (Obj [(''idTransaction'', Str idTransaction)]) \<rparr>
      in (try_catch (status_try fetch req idTransaction) (\<lambda>error.
            Inr (Obj [(''success'', Bool False),
                      (''idTransaction'', Str idTransaction),
                      (''status'', Str ''pending''),
                      (''error'', Str ''NETWORK_ERROR'')])),
          [req]))"

definition processPixInWebhook :: "jsval \<Rightarrow> exn + jsval" where
  "processPixInWebhook payload =
     bind (get payload ''data'') (\<lambda>data.
     bind (get data ''idTransaction'') (\<lambda>idTransaction.
     bind (get data ''status'') (\<lambda>st.
     bind (get data ''amount'') (\<lambda>amt.
     bind (get data ''paid_at'') (\<lambda>paid_at.
     bind (get data ''payer'') (\<lambda>payer.
       Inr (Obj [(''transactionId'', idTransaction),
                 (''status'', st),
                 (''amount'', amt),
                 (''paidAt'', paid_at),
                 (''payerName'', opt payer ''name''),
                 (''payerDocument'', opt payer ''document'')])))))))"

section \<open>What a route handler does\<close>

record response =
  http_status :: nat
  json_body :: jsval

text \<open>
  The response of a handler and the calls it made on the way: the requests sent to the
  gateway, the \<open>saveUtmParams(key, params)\<close> calls, the orders passed to
  \<open>sendOrderToUtmfy\<close>, and the results of its \<open>verifyWebhookSignature\<close> calls.
\<close>

record outcome =
  response :: response
  requests :: "http_request list"
  saved :: "(jsval \<times> jsval) list"
  forwarded :: "jsval list"
  verifications :: "bool list"

definition NextResponse_json :: "jsval \<Rightarrow> nat \<Rightarrow> response" where
  "NextResponse_json v code = \<lparr> http_status = code, json_body = v \<rparr>"

definition error_response :: "string \<Rightarrow> nat \<Rightarrow> response" where
  "error_response msg code = NextResponse_json (Obj [(''error'', Str msg)]) code"

text \<open>
  lib/utmfy is not among the sources. Its two functions are parameters: \<open>Inl\<close> is a throw
  or a rejected promise. A \<open>Date\<close> handed to formatUtmfyDate is either \<open>new Date()\<close> at
  a clock reading or \<open>new Date(v)\<close>.
\<close>

datatype jsdate = DateAt int | DateFrom jsval

record utmfy =
  formatUtmfyDate :: "jsdate \<Rightarrow> exn + jsval"
  sendOrderToUtmfy :: "jsval \<Rightarrow> exn + jsval"

text \<open>
  Modelled from the spec: lib/server-utm-store is not among the sources. The spec has
  \<open>save(key, params)\<close> and \<open>get(key)\<close> on a single process-wide mapping, \<open>get\<close> on a key
  never saved returning "absent", not an error.
\<close>

type_synonym utm_store = "jsval \<rightharpoonup> jsval"

definition getUtmParams :: "utm_store \<Rightarrow> jsval \<Rightarrow> jsval" where
  "getUtmParams st key = (case st key of None \<Rightarrow> Undefined | Some params \<Rightarrow> params)"

definition saveUtmParams :: "utm_store \<Rightarrow> jsval \<Rightarrow> jsval \<Rightarrow> utm_store" where
  "saveUtmParams st key params = st(key \<mapsto> params)"

text \<open>The store after the \<open>saveUtmParams\<close> calls of a handler, in their order.\<close>

definition store_after :: "utm_store \<Rightarrow> (jsval \<times> jsval) list \<Rightarrow> utm_store" where
  "store_after st calls = foldl (\<lambda>s (key, params). saveUtmParams s key params) st calls"

section \<open>app/api/pix/status/route.ts\<close>

definition mappedStatus :: "jsval \<Rightarrow> string" where
  "mappedStatus st =
     (if st = Str ''paid'' then ''paid''
      else if st = Str ''expired'' then ''expired''
      else if st = Str ''cancelled'' then ''cancelled''
      else ''pending'')"

definition transactionId_required :: string where
  "transactionId_required =
     ''transactionId '' @ [CHR 0xC3, CHR 0xA9] @ '' obrigat'' @ [CHR 0xC3, CHR 0xB3] @ ''rio''"

text \<open>\<open>transactionId\<close> is \<open>searchParams.get("transactionId")\<close>: \<open>None\<close> for \<open>null\<close>.\<close>

definition GET_status :: "engine \<Rightarrow> gateway \<Rightarrow> string option \<Rightarrow> outcome" where
  "GET_status e fetch transactionId =
     (case transactionId of
        None \<Rightarrow>
          \<lparr> response = error_response transactionId_required 400,
            requests = [], saved = [], forwarded = [], verifications = [] \<rparr>
      | Some tid \<Rightarrow>
          if tid = [] then
            \<lparr> response = error_response transactionId_required 400,
              requests = [], saved = [], forwarded = [], verifications = [] \<rparr>
          else
            (case getPixStatus e fetch tid of
               (Inl x, reqs) \<Rightarrow>
                 \<lparr> response = error_response ''Erro interno ao consultar status'' 500,
                   requests = reqs, saved = [], forwarded = [], verifications = [] \<rparr>
             | (Inr result, reqs) \<Rightarrow>
                 \<lparr> response = NextResponse_json
                     (Obj [(''success'', Bool True),
                           (''transactionId'', Str tid),
                           (''status'', Str (mappedStatus (field_of result ''status''))),
                           (''amount'', field_of result ''amount''),
                           (''paidAt'', field_of result ''paid_at'')]) 200,
                   requests = reqs, saved = [], forwarded = [], verifications = [] \<rparr>))"

section \<open>The webhook receiver (app/api/webhook/trexpay)\<close>

record webhook_request =
  headers :: "string \<Rightarrow> string option"
  json :: "exn + jsval"

text \<open>\<open>request.headers.get(name)\<close>: a string or \<open>null\<close>.\<close>

definition header :: "webhook_request \<Rightarrow> string \<Rightarrow> jsval" where
  "header req name = (case headers req name of None \<Rightarrow> Null | Some v \<Rightarrow> Str v)"

definition header_signature :: "webhook_request \<Rightarrow> jsval" where
  "header_signature req =
     lor (lor (lor (header req ''x-trexpay-signature'') (header req ''x-signature''))
              (header req ''signature'')) (Str [])"

definition null_tracking :: jsval where
  "null_tracking =
     Obj [(''src'', Null), (''sck'', Null), (''utm_source'', Null), (''utm_campaign'', Null),
          (''utm_medium'', Null), (''utm_content'', Null), (''utm_term'', Null)]"

text \<open>
  The order of the "paid" event (lines 60 to 104); \<open>t_created\<close> and \<open>t_approved\<close> are the
  clock readings of the two \<open>new Date()\<close>.
\<close>

definition paid_order ::
  "engine \<Rightarrow> utmfy \<Rightarrow> utm_store \<Rightarrow> int \<Rightarrow> int \<Rightarrow> jsval \<Rightarrow> exn + jsval" where
  "paid_order e c st t_created t_approved pixData =
     (let storedUtmParams = getUtmParams st (field_of pixData ''transactionId'')
      in bind (formatUtmfyDate c (DateAt t_created)) (\<lambda>createdAt.
         bind (formatUtmfyDate c
                 (if truthy (field_of pixData ''paidAt'') then DateFrom (field_of pixData ''paidAt'')
                  else DateAt t_approved)) (\<lambda>approvedDate.
           Inr (Obj
             [(''orderId'', field_of pixData ''transactionId''),
              (''platform'', Str ''papelaria-site''),
              (''paymentMethod'', Str ''pix''),
              (''status'', Str ''paid''),
              (''createdAt'', createdAt),
              (''approvedDate'', approvedDate),
              (''refundedAt'', Null),
              (''customer'', Obj
                 [(''name'', lor (field_of pixData ''payerName'') (Str ''Cliente'')),
                  (''email'', Null),
                  (''phone'', Null),
                  (''document'', lor (field_of pixData ''payerDocument'') Null),
                  (''country'', Str ''BR'')]),
              (''products'', Arr [Obj
                 [(''id'', Str ''pix-payment''),
                  (''name'', Str ''Pagamento PIX''),
                  (''planId'', Null),
                  (''planName'', Null),
                  (''quantity'', Num (Fin 1)),
                  (''priceInCents'',
                     Num (Math_round (mul (ToNumber e (field_of pixData ''amount'')) (Fin 100))))]]),
              (''trackingParameters'', lor storedUtmParams null_tracking),
              (''commission'', Obj
                 [(''totalPriceInCents'',
                     Num (Math_round (mul (ToNumber e (field_of pixData ''amount'')) (Fin 100)))),
                  (''gatewayFeeInCents'', Num (Fin 0)),
                  (''userCommissionInCents'',
                     Num (Math_round (mul (ToNumber e (field_of pixData ''amount'')) (Fin 100)))),
                  (''currency'', Str ''BRL'')])]))))"

text \<open>
  The inner \<open>try\<close> around the attribution event (lines 59 to 110 of the webhook
  receiver, 140 to 196 of the create handler): the order is built and handed to
  sendOrderToUtmfy; whatever is thrown, by the building or by the sending, is caught and
  logged. \<open>forward\<close> lists the orders handed over.
\<close>

definition attribution :: "utmfy \<Rightarrow> exn + jsval \<Rightarrow> exn + jsval" where
  "attribution c built =
     try_catch (bind built (\<lambda>utmfyOrder. sendOrderToUtmfy c utmfyOrder))
       (\<lambda>utmfyError. Inr Undefined)"

definition forward :: "exn + jsval \<Rightarrow> jsval list" where
  "forward built = (case built of Inl x \<Rightarrow> [] | Inr utmfyOrder \<Rightarrow> [utmfyOrder])"

text \<open>Lines 50 to 114, after the signature has been dealt with.\<close>

definition process_event ::
  "engine \<Rightarrow> utmfy \<Rightarrow> utm_store \<Rightarrow> int \<Rightarrow> int \<Rightarrow> jsval \<Rightarrow> bool list \<Rightarrow> outcome" where
  "process_event e c st t_created t_approved payload vs =
     (if field_of payload ''event'' = Str ''pix.received'' then
        (case processPixInWebhook payload of
           Inl x \<Rightarrow>
             \<lparr> response = error_response ''Erro interno ao processar webhook'' 500,
               requests = [], saved = [], forwarded = [], verifications = vs \<rparr>
         | Inr pixData \<Rightarrow>
             if field_of pixData ''status'' = Str ''paid'' then
               (case attribution c (paid_order e c st t_created t_approved pixData) of
                  Inl x \<Rightarrow>
                    \<lparr> response = error_response ''Erro interno ao processar webhook'' 500,
                      requests = [], saved = [],
                      forwarded = forward (paid_order e c st t_created t_approved pixData),
                      verifications = vs \<rparr>
                | Inr sent \<Rightarrow>
                    \<lparr> response = NextResponse_json (Obj [(''success'', Bool True)]) 200,
                      requests = [], saved = [],
                      forwarded = forward (paid_order e c st t_created t_approved pixData),
                      verifications = vs \<rparr>)
             else
               \<lparr> response = NextResponse_json (Obj [(''success'', Bool True)]) 200,
                 requests = [], saved = [], forwarded = [], verifications = vs \<rparr>)
      else
        \<lparr> response = NextResponse_json (Obj [(''success'', Bool True)]) 200,
          requests = [], saved = [], forwarded = [], verifications = vs \<rparr>)"

text \<open>\<open>signature || body.signature || ""\<close> (line 32).\<close>

definition signatureToVerify :: "webhook_request \<Rightarrow> jsval \<Rightarrow> jsval" where
  "signatureToVerify req body =
     lor (lor (header_signature req) (field_of body ''signature'')) (Str [])"

definition POST_webhook ::
  "engine \<Rightarrow> utmfy \<Rightarrow> env \<Rightarrow> utm_store \<Rightarrow> int \<Rightarrow> int \<Rightarrow> webhook_request \<Rightarrow> outcome" where
  "POST_webhook e c ev st t_created t_approved req =
     (case bind (json req) (\<lambda>body. bind (get body ''event'') (\<lambda>event. Inr body)) of
        Inl x \<Rightarrow>
          \<lparr> response = error_response ''Erro interno ao processar webhook'' 500,
            requests = [], saved = [], forwarded = [], verifications = [] \<rparr>
      | Inr body \<Rightarrow>
          if configured (TREXPAY_SECRET ev) then
            let secret = (case TREXPAY_SECRET ev of None \<Rightarrow> [] | Some k \<Rightarrow> k)
            in if truthy (signatureToVerify req body) then
                 (case verifyWebhookSignature e body (signatureToVerify req body) secret of
                    Inl x \<Rightarrow>
                      \<lparr> response = error_response ''Erro interno ao processar webhook'' 500,
                        requests = [], saved = [], forwarded = [], verifications = [] \<rparr>
                  | Inr isValid \<Rightarrow>
                      if \<not> isValid then
                        \<lparr> response = error_response
                            (''Assinatura inv'' @ [CHR 0xC3, CHR 0xA1] @ ''lida'') 401,
                          requests = [], saved = [], forwarded = [],
                          verifications = [isValid] \<rparr>
                      else process_event e c st t_created t_approved body [isValid])
               else process_event e c st t_created t_approved body []
          else process_event e c st t_created t_approved body [])"

section \<open>app/api/pix/create/route.ts\<close>

definition base36_digit :: "nat \<Rightarrow> char" where
  "base36_digit n = ''0123456789abcdefghijklmnopqrstuvwxyz'' ! (n mod 36)"

fun base36 :: "nat \<Rightarrow> string" where
  "base36 n = (if n < 36 then [base36_digit n] else base36 (n div 36) @ [base36_digit n])"

declare base36.simps [simp del]

text \<open>\<open>n.toString(36)\<close> for an integer \<open>n\<close>.\<close>

definition toString36 :: "int \<Rightarrow> string" where
  "toString36 n = (if n < 0 then ''-'' @ base36 (nat (- n)) else base36 (nat n))"

text \<open>\<open>toUpperCase\<close> on ASCII text.\<close>

definition toUpperCase :: "string \<Rightarrow> string" where
  "toUpperCase s =
     map (\<lambda>c. case map_of (zip ''abcdefghijklmnopqrstuvwxyz'' ''ABCDEFGHIJKLMNOPQRSTUVWXYZ'') c of
                None \<Rightarrow> c | Some u \<Rightarrow> u) s"

text \<open>
  The readings the create handler takes from its surroundings: \<open>Date.now()\<close> in
  generateOrderId, the text of \<open>Math.random().toString(36)\<close>, the \<open>new Date()\<close> of the
  attribution event, and \<open>Date.now()\<close> of the default expiry.
\<close>

record readings =
  order_time :: int
  random36 :: string
  created_time :: int
  expiry_time :: int

definition generateOrderId :: "readings \<Rightarrow> string" where
  "generateOrderId rd =
     (let timestamp = toUpperCase (toString36 (order_time rd));
          random = toUpperCase (take 4 (drop 2 (random36 rd)))
      in ''PED-'' @ timestamp @ ''-'' @ random)"

definition toCents :: "engine \<Rightarrow> jsval \<Rightarrow> jsval" where
  "toCents e v = Num (Math_round (mul (ToNumber e v) (Fin 100)))"

definition getBaseUrl :: "env \<Rightarrow> string" where
  "getBaseUrl ev =
     (if configured (VERCEL_URL ev)
        then ''https://'' @ (case VERCEL_URL ev of None \<Rightarrow> [] | Some u \<Rightarrow> u)
      else if configured (NEXT_PUBLIC_SITE_URL ev)
        then (case NEXT_PUBLIC_SITE_URL ev of None \<Rightarrow> [] | Some u \<Rightarrow> u)
      else ''http://localhost:3000'')"

text \<open>\<open>{ src: trackingParams?.src || null, ... }\<close> (lines 73 to 81, 128 to 136, 171 to 179).\<close>

definition tracking_snapshot :: "jsval \<Rightarrow> jsval" where
  "tracking_snapshot tp =
     Obj [(''src'', lor (opt tp ''src'') Null),
          (''sck'', lor (opt tp ''sck'') Null),
          (''utm_source'', lor (opt tp ''utm_source'') Null),
          (''utm_campaign'', lor (opt tp ''utm_campaign'') Null),
          (''utm_medium'', lor (opt tp ''utm_medium'') Null),
          (''utm_content'', lor (opt tp ''utm_content'') Null),
          (''utm_term'', lor (opt tp ''utm_term'') Null)]"

text \<open>The \<open>trackingParams\<close> argument of createPixDeposit (lines 96 to 106).\<close>

definition tracking_argument :: "jsval \<Rightarrow> jsval" where
  "tracking_argument tp =
     (if truthy tp then
        Obj [(''src'', field_of tp ''src''),
             (''sck'', field_of tp ''sck''),
             (''utm_source'', field_of tp ''utm_source''),
             (''utm_campaign'', field_of tp ''utm_campaign''),
             (''utm_medium'', field_of tp ''utm_medium''),
             (''utm_content'', field_of tp ''utm_content''),
             (''utm_term'', field_of tp ''utm_term'')]
      else Undefined)"

text \<open>\<open>x?.replace(/\D/g, "") || null\<close> (lines 152 and 153).\<close>

definition digits_or_null :: "jsval \<Rightarrow> exn + jsval" where
  "digits_or_null x =
     (if x = Undefined \<or> x = Null then Inr Null
      else bind (replace_non_digits x) (\<lambda>s. Inr (if s = [] then Null else Str s)))"

fun map_m :: "('a \<Rightarrow> exn + 'b) \<Rightarrow> 'a list \<Rightarrow> exn + 'b list" where
  "map_m f [] = Inr []"
| "map_m f (x # xs) = bind (f x) (\<lambda>y. bind (map_m f xs) (\<lambda>ys. Inr (y # ys)))"

text \<open>The callback of \<open>items.map\<close> (lines 157 to 169).\<close>

definition product :: "engine \<Rightarrow> jsval \<Rightarrow> exn + jsval" where
  "product e item =
     bind (lor_m (get item ''id'') (Inr (Str ''product''))) (\<lambda>pid.
     bind (get item ''name'') (\<lambda>name.
     bind (get item ''quantity'') (\<lambda>quantity.
     bind (get item ''price'') (\<lambda>price.
       Inr (Obj [(''id'', pid),
                 (''name'', name),
                 (''planId'', Null),
                 (''planName'', Null),
                 (''quantity'', quantity),
                 (''priceInCents'', toCents e price)])))))"

text \<open>\<open>items.map(...)\<close>: of the JSON values only an array has the method.\<close>

definition products :: "engine \<Rightarrow> jsval \<Rightarrow> exn + jsval" where
  "products e items =
     (case items of
        Arr xs \<Rightarrow> bind (map_m (product e) xs) (\<lambda>ps. Inr (Arr ps))
      | Undefined \<Rightarrow> Inl (NullProperty ''map'')
      | Null \<Rightarrow> Inl (NullProperty ''map'')
      | _ \<Rightarrow> Inl (NotCallable ''map''))"

text \<open>The order of the "waiting_payment" event (lines 141 to 186).\<close>

definition waiting_order ::
  "engine \<Rightarrow> utmfy \<Rightarrow> readings \<Rightarrow> jsval \<Rightarrow> jsval \<Rightarrow> jsval \<Rightarrow> jsval \<Rightarrow> jsval
     \<Rightarrow> exn + jsval" where
  "waiting_order e c rd customer items trackingParams transactionId amountInCents =
     bind (lor_m (formatUtmfyDate c (DateAt (created_time rd))) (Inr (Str []))) (\<lambda>createdAt.
     bind (digits_or_null (field_of customer ''phone'')) (\<lambda>phone.
     bind (digits_or_null (field_of customer ''cpf'')) (\<lambda>document.
     bind (products e items) (\<lambda>ps.
       Inr (Obj
         [(''orderId'', transactionId),
          (''platform'', Str ''papelaria-site''),
          (''paymentMethod'', Str ''pix''),
          (''status'', Str ''waiting_payment''),
          (''createdAt'', createdAt),
          (''approvedDate'', Null),
          (''refundedAt'', Null),
          (''customer'', Obj
             [(''name'', field_of customer ''name''),
              (''email'', field_of customer ''email''),
              (''phone'', phone),
              (''document'', document),
              (''country'', Str ''BR'')]),
          (''products'', ps),
          (''trackingParameters'', tracking_snapshot trackingParams),
          (''commission'', Obj
             [(''totalPriceInCents'', amountInCents),
              (''gatewayFeeInCents'', Num (Fin 0)),
              (''userCommissionInCents'', amountInCents),
              (''currency'', Str ''BRL'')])])))))"

definition silent :: "response \<Rightarrow> outcome" where
  "silent r = \<lparr> response = r, requests = [], saved = [], forwarded = [], verifications = [] \<rparr>"

text \<open>The argument of createPixDeposit (lines 89 to 107).\<close>

definition deposit_arguments :: "env \<Rightarrow> jsval \<Rightarrow> jsval \<Rightarrow> jsval \<Rightarrow> deposit_params" where
  "deposit_arguments ev customer total' trackingParams =
     \<lparr> amount = total',
       customerName = field_of customer ''name'',
       customerEmail = field_of customer ''email'',
       customerDocument = field_of customer ''cpf'',
       customerPhone = field_of customer ''phone'',
       postbackUrl = getBaseUrl ev @ ''/api/webhook/trexpay'',
       tracking_params = tracking_argument trackingParams \<rparr>"

text \<open>The body of the 200 response (lines 199 to 210).\<close>

definition pix_created :: "engine \<Rightarrow> readings \<Rightarrow> string \<Rightarrow> jsval \<Rightarrow> jsval \<Rightarrow> jsval" where
  "pix_created e rd orderId transactionId trexPayResult =
     Obj [(''success'', Bool True),
          (''orderId'', Str orderId),
          (''transactionId'', transactionId),
          (''pix'', Obj
             [(''qrcode'', lor (lor (field_of trexPayResult ''pixKey'')
                                    (field_of trexPayResult ''qrCode'')) (Str [])),
              (''qrCodeBase64'', lor (field_of trexPayResult ''qrCodeBase64'') (Str [])),
              (''expiresAt'',
                 lor (field_of trexPayResult ''expiresAt'')
                     (Str (date_toISOString e (expiry_time rd + 30 * 60 * 1000))))])]"

text \<open>Lines 68 to 210: the request has passed the validations.\<close>

definition create_order ::
  "engine \<Rightarrow> utmfy \<Rightarrow> env \<Rightarrow> gateway \<Rightarrow> readings \<Rightarrow> jsval \<Rightarrow> jsval \<Rightarrow> jsval \<Rightarrow> jsval
     \<Rightarrow> outcome" where
  "create_order e c ev fetch rd customer items total' trackingParams =
     (let orderId = generateOrderId rd;
          amountInCents = toCents e total';
          saved1 = (if truthy trackingParams
                    then [(Str orderId, tracking_snapshot trackingParams)] else [])
      in case createPixDeposit e ev fetch (deposit_arguments ev customer total' trackingParams) of
           (Inl x, reqs) \<Rightarrow>
             \<lparr> response = error_response ''Erro interno ao processar pagamento'' 500,
               requests = reqs, saved = saved1, forwarded = [], verifications = [] \<rparr>
         | (Inr trexPayResult, reqs) \<Rightarrow>
             if \<not> truthy (field_of trexPayResult ''success'') then
               \<lparr> response = NextResponse_json
                   (Obj [(''error'', lor (field_of trexPayResult ''message'') (Str ''Erro ao gerar PIX'')),
                         (''details'', field_of trexPayResult ''error''),
                         (''debug'', Obj [(''errorCode'', field_of trexPayResult ''error''),
                                          (''message'', field_of trexPayResult ''message'')])]) 500,
                 requests = reqs, saved = saved1, forwarded = [], verifications = [] \<rparr>
             else
               let transactionId = lor (field_of trexPayResult ''idTransaction'') (Str orderId);
                   saved2 = (if truthy trackingParams \<and> truthy (field_of trexPayResult ''idTransaction'')
                             then [(field_of trexPayResult ''idTransaction'',
                                    tracking_snapshot trackingParams)] else []);
                   built = waiting_order e c rd customer items trackingParams
                             transactionId amountInCents
               in case attribution c built of
                    Inl x \<Rightarrow>
                      \<lparr> response = error_response ''Erro interno ao processar pagamento'' 500,
                        requests = reqs, saved = saved1 @ saved2, forwarded = forward built,
                        verifications = [] \<rparr>
                  | Inr sent \<Rightarrow>
                      \<lparr> response = NextResponse_json
                          (pix_created e rd orderId transactionId trexPayResult) 200,
                        requests = reqs,
                        saved = saved1 @ saved2,
                        forwarded = forward built,
                        verifications = [] \<rparr>)"

text \<open>
  The handler. \<open>req_json\<close> is the result of \<open>request.json()\<close>; destructuring \<open>null\<close>
  throws (line 38).
\<close>

definition POST_create ::
  "engine \<Rightarrow> utmfy \<Rightarrow> env \<Rightarrow> gateway \<Rightarrow> readings \<Rightarrow> exn + jsval \<Rightarrow> outcome" where
  "POST_create e c ev fetch rd req_json =
     (case bind req_json (\<lambda>body. bind (get body ''customer'') (\<lambda>customer. Inr body)) of
        Inl x \<Rightarrow> silent (error_response ''Erro interno ao processar pagamento'' 500)
      | Inr body \<Rightarrow>
          let customer = field_of body ''customer'';
              items = field_of body ''items'';
              total' = field_of body ''total'';
              trackingParams = field_of body ''trackingParams''
          in if \<not> truthy customer \<or> \<not> truthy (field_of customer ''name'')
                \<or> \<not> truthy (field_of customer ''email'') \<or> \<not> truthy (field_of customer ''cpf'')
                \<or> \<not> truthy (field_of customer ''phone'')
               then silent (error_response ''Dados do cliente incompletos'' 400)
             else if \<not> truthy items \<or> field_of items ''length'' = Num (Fin 0)
               then silent (error_response ''Nenhum item no pedido'' 400)
             else if \<not> truthy total' \<or> le_zero (ToNumber e total')
               then silent (error_response
                              (''Valor total inv'' @ [CHR 0xC3, CHR 0xA1] @ ''lido'') 400)
             else create_order e c ev fetch rd customer items total' trackingParams)"

text \<open>
  The reading order of the signature in the words of the specification: the first of the
  headers x-trexpay-signature, x-signature, signature that is present and not empty,
  otherwise the signature field of the body, otherwise the empty string.
\<close>

fun first_present :: "string option list \<Rightarrow> string option" where
  "first_present [] = None"
| "first_present (None # hs) = first_present hs"
| "first_present (Some s # hs) = (if s = [] then first_present hs else Some s)"

definition signature_by_precedence :: "webhook_request \<Rightarrow> jsval \<Rightarrow> jsval" where
  "signature_by_precedence req body =
     (case first_present [headers req ''x-trexpay-signature'', headers req ''x-signature'',
                          headers req ''signature''] of
        Some s \<Rightarrow> Str s
      | None \<Rightarrow> if truthy (field_of body ''signature'') then field_of body ''signature''
                else Str [])"

text \<open>
  An instance of the runtime used to evaluate the model at concrete inputs. Its functions
  are stand-ins; no theorem below that speaks of every runtime depends on them.
\<close>

definition sample_engine :: engine where
  "sample_engine =
     \<lparr> hmac_sha256 = (\<lambda>key msg. of_nat (length key + length msg)),
       number_toString = (\<lambda>q. ''0''),
       string_toNumber = (\<lambda>s. NaN),
       buffer_from_other = (\<lambda>v. None),
       date_toISOString = (\<lambda>t. ''T''),
       error_text = (\<lambda>x. ''TypeError'') \<rparr>"

definition sample_utmfy :: utmfy where
  "sample_utmfy =
     \<lparr> formatUtmfyDate = (\<lambda>d. Inr (Str ''2024-01-01 00:00:00'')),
       sendOrderToUtmfy = (\<lambda>order. Inr (Obj [(''success'', Bool True)])) \<rparr>"

definition failing_utmfy :: utmfy where
  "failing_utmfy =
     \<lparr> formatUtmfyDate = (\<lambda>d. Inr (Str ''2024-01-01 00:00:00'')),
       sendOrderToUtmfy = (\<lambda>order. Inl (Rejected ''attribution service unreachable'')) \<rparr>"

definition sample_env :: env where
  "sample_env =
     \<lparr> TREXPAY_TOKEN = Some ''token'', TREXPAY_SECRET = Some ''secret'',
       VERCEL_URL = None, NEXT_PUBLIC_SITE_URL = None \<rparr>"

definition success_response :: response where
  "success_response = NextResponse_json (Obj [(''success'', Bool True)]) 200"

text \<open>The three validations of lines 41 to 66 all pass.\<close>

definition passes_validation :: "engine \<Rightarrow> jsval \<Rightarrow> bool" where
  "passes_validation e body =
     (truthy (field_of body ''customer'')
      \<and> truthy (field_of (field_of body ''customer'') ''name'')
      \<and> truthy (field_of (field_of body ''customer'') ''email'')
      \<and> truthy (field_of (field_of body ''customer'') ''cpf'')
      \<and> truthy (field_of (field_of body ''customer'') ''phone'')
      \<and> truthy (field_of body ''items'')
      \<and> field_of (field_of body ''items'') ''length'' \<noteq> Num (Fin 0)
      \<and> truthy (field_of body ''total'')
      \<and> \<not> le_zero (ToNumber e (field_of body ''total'')))"

definition sample_readings :: readings where
  "sample_readings =
     \<lparr> order_time = 1700000000000, random36 = ''0.4fzyo82mvyr'',
       created_time = 1700000000001, expiry_time = 1700000000250 \<rparr>"

definition sample_order :: jsval where
  "sample_order =
     Obj [(''customer'', Obj [(''name'', Str ''Ana''), (''email'', Str ''ana@example.com''),
                              (''cpf'', Str ''123.456.789-09''), (''phone'', Str ''(11) 91234-5678'')]),
          (''items'', Arr [Obj [(''id'', Str ''caderno''), (''name'', Str ''Caderno''),
                                (''price'', Num (Fin 20)), (''quantity'', Num (Fin 1))]]),
          (''total'', Num (Fin 20))]"


section \<open>Basic facts\<close>

lemma bind_Inr [simp]: "bind (Inr v) f = f v"
  by (simp add: bind_def)

lemma bind_Inl [simp]: "bind (Inl x) f = Inl x"
  by (simp add: bind_def)

lemma try_catch_Inr [simp]: "try_catch (Inr v) h = Inr v"
  by (simp add: try_catch_def)

lemma try_catch_Inl [simp]: "try_catch (Inl x) h = h x"
  by (simp add: try_catch_def)

lemma attribution_returns: "\<exists>sent. attribution c built = Inr sent"
  by (cases "bind built (\<lambda>utmfyOrder. sendOrderToUtmfy c utmfyOrder)")
     (simp_all add: attribution_def)

section \<open>The signature verifier\<close>

lemma length_hex_digest: "length (hex_digest w) = 64"
  by (simp add: hex_digest_def)

lemma verify_try_Str:
  assumes "JSON_stringify e P = Some m"
  shows "verify_try e P (Str s) S = Inr (s = ''sha256='' @ hex_digest (hmac_sha256 e S m))"
  using assms
  by (auto simp: verify_try_def expectedSignature_def Buffer_from_def timingSafeEqual_def)

lemma verify_Str:
  assumes "JSON_stringify e P = Some m"
  shows "verifyWebhookSignature e P (Str s) S
           = Inr (s = ''sha256='' @ hex_digest (hmac_sha256 e S m))"
  by (simp add: verifyWebhookSignature_def verify_try_Str [OF assms])










text \<open>
  C2: whatever the payload, the supplied signature and the secret, verifyWebhookSignature
  returns a boolean and raises nothing; an error inside its \<open>try\<close> block (a payload with
  no serialization, a signature that \<open>Buffer.from\<close> refuses) gives false; a signature
  string whose length differs from that of the expected signature gives false, and it
  does so by the explicit length test, which comes before \<open>timingSafeEqual\<close>: the
  RangeError of \<open>timingSafeEqual\<close> on unequal lengths never occurs.
\<close>

theorem verify_never_raises_length_checked_first:
  "(\<exists>b. verifyWebhookSignature e P sg S = Inr b)
   \<and> (\<forall>x. verify_try e P sg S = Inl x \<longrightarrow> verifyWebhookSignature e P sg S = Inr False)
   \<and> (\<forall>ex s. expectedSignature e P S = Inr ex \<longrightarrow> length s \<noteq> length ex \<longrightarrow>
         verify_try e P (Str s) S = Inr False
         \<and> verifyWebhookSignature e P (Str s) S = Inr False)
   \<and> verify_try e P sg S \<noteq> Inl LengthMismatch"
proof (intro conjI allI impI)
  show "\<exists>b. verifyWebhookSignature e P sg S = Inr b"
    by (cases "verify_try e P sg S") (auto simp: verifyWebhookSignature_def)
next
  fix x assume "verify_try e P sg S = Inl x"
  then show "verifyWebhookSignature e P sg S = Inr False"
    by (simp add: verifyWebhookSignature_def)
next
  fix ex s :: string
  assume ex: "expectedSignature e P S = Inr ex" and len: "length s \<noteq> length ex"
  show t: "verify_try e P (Str s) S = Inr False"
    using ex len by (simp add: verify_try_def Buffer_from_def)
  show "verifyWebhookSignature e P (Str s) S = Inr False"
    by (simp add: verifyWebhookSignature_def t)
next
  show "verify_try e P sg S \<noteq> Inl LengthMismatch"
    by (auto simp: verify_try_def expectedSignature_def Buffer_from_def timingSafeEqual_def
             bind_def split: option.splits sum.splits jsval.splits)
qed

theorem verify_never_raises_length_checked_first_witness:
  "expectedSignature sample_engine (Obj []) ''k'' = Inr (''sha256='' @ hex_digest 3)
   \<and> length ''sha256=abc'' \<noteq> length (''sha256='' @ hex_digest 3)
   \<and> verifyWebhookSignature sample_engine (Obj []) (Str ''sha256=abc'') ''k'' = Inr False
   \<and> verify_try sample_engine Undefined (Str ''sha256=abc'') ''k'' = Inl InvalidArgument
   \<and> verifyWebhookSignature sample_engine Undefined (Str ''sha256=abc'') ''k'' = Inr False"
proof -
  have a: "expectedSignature sample_engine (Obj []) ''k'' = Inr (''sha256='' @ hex_digest 3)"
    by (simp add: expectedSignature_def sample_engine_def)
  have b: "length ''sha256=abc'' \<noteq> length (''sha256='' @ hex_digest 3)"
    by (simp add: length_hex_digest)
  have c: "verify_try sample_engine Undefined (Str ''sha256=abc'') ''k'' = Inl InvalidArgument"
    by (simp add: verify_try_def expectedSignature_def)
  show ?thesis
    using a b c
      verify_never_raises_length_checked_first [of sample_engine "Obj []" "Str ''sha256=abc''" "''k''"]
      verify_never_raises_length_checked_first [of sample_engine Undefined "Str ''sha256=abc''" "''k''"]
    by blast
qed

section \<open>Reading values\<close>

lemma lor_m_Inr [simp]: "lor_m (Inr v) b = (if truthy v then Inr v else b)"
  by (simp add: lor_m_def)

lemma lor_m_Inl [simp]: "lor_m (Inl x) b = Inl x"
  by (simp add: lor_m_def)

lemma field_of_Arr [simp]:
  "field_of (Arr xs) p = (if p = ''length'' then Num (Fin (of_nat (length xs))) else Undefined)"
  by (simp add: field_of_def)

lemma field_of_Obj [simp]:
  "field_of (Obj kvs) p = (case map_of kvs p of None \<Rightarrow> Undefined | Some v \<Rightarrow> v)"
  by (simp add: field_of_def)

section \<open>The status route\<close>

lemma getPixStatus_returns:
  "\<exists>result. fst (getPixStatus e fetch tid) = Inr result"
  by (cases "status_try fetch
        \<lparr>req_url = TREXPAY_BASE_URL @ ''/api/status'',
           req_body = JSON_stringify e (Obj [(''idTransaction'', Str tid)])\<rparr> tid")
     (simp_all add: getPixStatus_def Let_def)

lemma mappedStatus_cases:
  "mappedStatus st \<in> {''pending'', ''paid'', ''expired'', ''cancelled''}"
  by (simp add: mappedStatus_def)

lemma mappedStatus_unknown:
  "st \<noteq> Str ''paid'' \<Longrightarrow> st \<noteq> Str ''expired'' \<Longrightarrow> st \<noteq> Str ''cancelled'' \<Longrightarrow>
   mappedStatus st = ''pending''"
  by (simp add: mappedStatus_def)

lemma GET_status_Some:
  assumes "tid \<noteq> []" and "fst (getPixStatus e fetch tid) = Inr result"
  shows "response (GET_status e fetch (Some tid)) = NextResponse_json
           (Obj [(''success'', Bool True),
                 (''transactionId'', Str tid),
                 (''status'', Str (mappedStatus (field_of result ''status''))),
                 (''amount'', field_of result ''amount''),
                 (''paidAt'', field_of result ''paid_at'')]) 200"
  using assms by (cases "getPixStatus e fetch tid") (simp add: GET_status_def)

lemma getPixStatus_failed_pending:
  assumes "fst (getPixStatus e fetch tid) = Inr result" and "field_of result ''success'' \<noteq> Bool True"
  shows "field_of result ''status'' = Str ''pending''"
  using assms
  by (auto simp: getPixStatus_def Let_def status_try_def try_catch_def bind_def lor_m_def
           split: sum.splits option.splits if_splits prod.splits)

text \<open>
  C6: a status request that carries a transaction id (the query parameter is present and
  not empty, which is the handler's own test) is answered with HTTP 200 and \<open>success: true\<close>,
  whatever the gateway did, also when the query failed; the status returned is one of
  pending, paid, expired, cancelled; a gateway status that is none of paid, expired,
  cancelled (unknown or unset) is mapped to pending, and so is a failed query.
\<close>

theorem status_route_always_200:
  "tid \<noteq> [] \<longrightarrow>
     (\<exists>result.
        fst (getPixStatus e fetch tid) = Inr result
        \<and> http_status (response (GET_status e fetch (Some tid))) = 200
        \<and> field_of (json_body (response (GET_status e fetch (Some tid)))) ''success'' = Bool True
        \<and> field_of (json_body (response (GET_status e fetch (Some tid)))) ''status''
            = Str (mappedStatus (field_of result ''status''))
        \<and> mappedStatus (field_of result ''status'') \<in> {''pending'', ''paid'', ''expired'', ''cancelled''}
        \<and> (field_of result ''status'' \<notin> {Str ''paid'', Str ''expired'', Str ''cancelled''}
             \<longrightarrow> mappedStatus (field_of result ''status'') = ''pending'')
        \<and> (field_of result ''success'' \<noteq> Bool True
             \<longrightarrow> mappedStatus (field_of result ''status'') = ''pending''))"
proof
  assume tid: "tid \<noteq> []"
  obtain result where r: "fst (getPixStatus e fetch tid) = Inr result"
    using getPixStatus_returns by blast
  have resp: "response (GET_status e fetch (Some tid)) = NextResponse_json
           (Obj [(''success'', Bool True),
                 (''transactionId'', Str tid),
                 (''status'', Str (mappedStatus (field_of result ''status''))),
                 (''amount'', field_of result ''amount''),
                 (''paidAt'', field_of result ''paid_at'')]) 200"
    by (rule GET_status_Some [OF tid r])
  have failed: "field_of result ''success'' \<noteq> Bool True \<longrightarrow> mappedStatus (field_of result ''status'') = ''pending''"
    using getPixStatus_failed_pending [OF r] by (simp add: mappedStatus_def)
  show "\<exists>result.
        fst (getPixStatus e fetch tid) = Inr result
        \<and> http_status (response (GET_status e fetch (Some tid))) = 200
        \<and> field_of (json_body (response (GET_status e fetch (Some tid)))) ''success'' = Bool True
        \<and> field_of (json_body (response (GET_status e fetch (Some tid)))) ''status''
            = Str (mappedStatus (field_of result ''status''))
        \<and> mappedStatus (field_of result ''status'') \<in> {''pending'', ''paid'', ''expired'', ''cancelled''}
        \<and> (field_of result ''status'' \<notin> {Str ''paid'', Str ''expired'', Str ''cancelled''}
             \<longrightarrow> mappedStatus (field_of result ''status'') = ''pending'')
        \<and> (field_of result ''success'' \<noteq> Bool True
             \<longrightarrow> mappedStatus (field_of result ''status'') = ''pending'')"
    apply (rule exI [of _ result])
    apply (intro conjI)
          apply (rule r)
         apply (simp add: resp NextResponse_json_def)
        apply (simp add: resp NextResponse_json_def)
       apply (simp add: resp NextResponse_json_def)
      apply (rule mappedStatus_cases)
     apply (simp add: mappedStatus_def)
    apply (rule failed)
    done
qed

theorem status_route_always_200_witness:
  "''T1'' \<noteq> []
   \<and> http_status (response (GET_status sample_engine (\<lambda>req. Inl (Rejected ''timeout'')) (Some ''T1''))) = 200
   \<and> field_of (json_body (response (GET_status sample_engine (\<lambda>req. Inl (Rejected ''timeout''))
         (Some ''T1'')))) ''success'' = Bool True
   \<and> field_of (json_body (response (GET_status sample_engine (\<lambda>req. Inl (Rejected ''timeout''))
         (Some ''T1'')))) ''status'' = Str ''pending''"
proof -
  have r: "fst (getPixStatus sample_engine (\<lambda>req. Inl (Rejected ''timeout'')) ''T1'')
             = Inr (Obj [(''success'', Bool False), (''idTransaction'', Str ''T1''),
                         (''status'', Str ''pending''), (''error'', Str ''NETWORK_ERROR'')])"
    by (simp add: getPixStatus_def status_try_def Let_def)
  show ?thesis
    using r status_route_always_200 [of "''T1''" sample_engine "\<lambda>req. Inl (Rejected ''timeout'')"]
    by (auto simp: mappedStatus_def)
qed

section \<open>The webhook receiver\<close>

lemma get_field_of: "get v p = Inr w \<Longrightarrow> field_of v p = w"
  by (simp add: field_of_def)

lemma hex_digest_length_neq: "length s \<noteq> 64 \<Longrightarrow> s \<noteq> hex_digest w"
  using length_hex_digest by blast

lemma verify_returns: "\<exists>b. verifyWebhookSignature e P sg S = Inr b"
  by (cases "verify_try e P sg S") (auto simp: verifyWebhookSignature_def)

lemma signature_precedence:
  "signatureToVerify req body = signature_by_precedence req body"
  by (auto simp: signatureToVerify_def signature_by_precedence_def header_signature_def
        header_def lor_def split: option.splits)


lemma webhook_unsigned:
  assumes "json req = Inr body" and "get body ''event'' = Inr evt"
    and "\<not> configured (TREXPAY_SECRET ev) \<or> \<not> truthy (signatureToVerify req body)"
  shows "POST_webhook e c ev st t1 t2 req = process_event e c st t1 t2 body []"
  using assms by (auto simp: POST_webhook_def)

lemma webhook_signed:
  assumes "json req = Inr body" and "get body ''event'' = Inr evt"
    and "TREXPAY_SECRET ev = Some secret" and "secret \<noteq> []"
    and "truthy (signatureToVerify req body)"
    and "verifyWebhookSignature e body (signatureToVerify req body) secret = Inr isValid"
  shows "POST_webhook e c ev st t1 t2 req =
           (if isValid then process_event e c st t1 t2 body [True]
            else \<lparr> response = error_response (''Assinatura inv'' @ [CHR 0xC3, CHR 0xA1] @ ''lida'') 401,
                   requests = [], saved = [], forwarded = [], verifications = [False] \<rparr>)"
  using assms by (auto simp: POST_webhook_def configured_def)

lemma process_event_status:
  "http_status (response (process_event e c st t1 t2 body vs)) \<noteq> 401"
  by (auto simp: process_event_def error_response_def NextResponse_json_def split: sum.splits)

lemma process_event_verifications:
  "verifications (process_event e c st t1 t2 body vs) = vs"
  by (auto simp: process_event_def split: sum.splits)



text \<open>
  C3, amended: on a request whose body is read (JSON, not \<open>null\<close>), the signature is the
  first of the headers x-trexpay-signature, x-signature, signature that is present and not
  empty, otherwise the signature field of the body; if a secret is configured, a signature
  is supplied and its verification fails, the response is HTTP 401 and the attribution
  forwarder is not invoked; verification is skipped exactly when the secret is not
  configured or no signature is supplied (one of the two missing is enough), and the
  request is then processed as any verified one.
\<close>

theorem webhook_signature_handling:
  "json req = Inr body \<longrightarrow> get body ''event'' = Inr evt \<longrightarrow>
     signatureToVerify req body = signature_by_precedence req body
     \<and> (\<forall>secret. TREXPAY_SECRET ev = Some secret \<longrightarrow> secret \<noteq> [] \<longrightarrow>
           truthy (signatureToVerify req body) \<longrightarrow>
           verifyWebhookSignature e body (signatureToVerify req body) secret = Inr False \<longrightarrow>
             http_status (response (POST_webhook e c ev st t1 t2 req)) = 401
             \<and> forwarded (POST_webhook e c ev st t1 t2 req) = [])
     \<and> ((verifications (POST_webhook e c ev st t1 t2 req) = [])
          = (\<not> configured (TREXPAY_SECRET ev) \<or> \<not> truthy (signatureToVerify req body)))
     \<and> (\<not> configured (TREXPAY_SECRET ev) \<or> \<not> truthy (signatureToVerify req body) \<longrightarrow>
          POST_webhook e c ev st t1 t2 req = process_event e c st t1 t2 body [])"
proof (intro impI conjI allI)
  assume j: "json req = Inr body" and g: "get body ''event'' = Inr evt"
  show "signatureToVerify req body = signature_by_precedence req body"
    by (rule signature_precedence)
  {
    fix secret
    assume s: "TREXPAY_SECRET ev = Some secret" "secret \<noteq> []"
      and t: "truthy (signatureToVerify req body)"
      and v: "verifyWebhookSignature e body (signatureToVerify req body) secret = Inr False"
    show "http_status (response (POST_webhook e c ev st t1 t2 req)) = 401"
      by (simp add: webhook_signed [OF j g s t v] error_response_def NextResponse_json_def)
    show "forwarded (POST_webhook e c ev st t1 t2 req) = []"
      by (simp add: webhook_signed [OF j g s t v])
  }
  show "(verifications (POST_webhook e c ev st t1 t2 req) = [])
          = (\<not> configured (TREXPAY_SECRET ev) \<or> \<not> truthy (signatureToVerify req body))"
  proof (cases "configured (TREXPAY_SECRET ev) \<and> truthy (signatureToVerify req body)")
    case False
    then show ?thesis
      using webhook_unsigned [OF j g]
      by (auto simp: process_event_verifications)
  next
    case True
    then obtain secret where s: "TREXPAY_SECRET ev = Some secret" "secret \<noteq> []"
      by (auto simp: configured_def split: option.splits)
    obtain b where b: "verifyWebhookSignature e body (signatureToVerify req body) secret = Inr b"
      using verify_returns by blast
    have "verifications (POST_webhook e c ev st t1 t2 req) = [b]"
      using webhook_signed [OF j g s _ b] True
      by (cases b) (simp_all add: process_event_verifications)
    then show ?thesis using True by simp
  qed
  assume "\<not> configured (TREXPAY_SECRET ev) \<or> \<not> truthy (signatureToVerify req body)"
  then show "POST_webhook e c ev st t1 t2 req = process_event e c st t1 t2 body []"
    by (rule webhook_unsigned [OF j g])
qed

lemmas eval_webhook =
  POST_webhook_def process_event_def processPixInWebhook_def signatureToVerify_def
  header_signature_def header_def lor_def configured_def sample_env_def
  error_response_def NextResponse_json_def

text \<open>
  C3, as stated, fails: it has verification skipped exactly when neither the secret nor a
  signature is present. With the secret configured and no signature in the headers or the
  body, the handler verifies nothing and answers 200.
\<close>

theorem webhook_skips_verification_with_secret_configured:
  "configured (TREXPAY_SECRET sample_env)
   \<and> signatureToVerify \<lparr> headers = (\<lambda>name. None), json = Inr (Obj [(''event'', Str ''pix.sent'')]) \<rparr>
        (Obj [(''event'', Str ''pix.sent'')]) = Str []
   \<and> verifications (POST_webhook sample_engine sample_utmfy sample_env Map.empty 0 0
        \<lparr> headers = (\<lambda>name. None), json = Inr (Obj [(''event'', Str ''pix.sent'')]) \<rparr>) = []
   \<and> http_status (response (POST_webhook sample_engine sample_utmfy sample_env Map.empty 0 0
        \<lparr> headers = (\<lambda>name. None), json = Inr (Obj [(''event'', Str ''pix.sent'')]) \<rparr>)) = 200"
  by (simp add: eval_webhook)

theorem webhook_signature_handling_witness:
  "json \<lparr> headers = [''x-signature'' \<mapsto> ''sha256=bad''], json = Inr (Obj [(''event'', Str ''pix.received'')]) \<rparr>
     = Inr (Obj [(''event'', Str ''pix.received'')])
   \<and> TREXPAY_SECRET sample_env = Some ''secret''
   \<and> signatureToVerify
        \<lparr> headers = [''x-signature'' \<mapsto> ''sha256=bad''], json = Inr (Obj [(''event'', Str ''pix.received'')]) \<rparr>
        (Obj [(''event'', Str ''pix.received'')]) = Str ''sha256=bad''
   \<and> verifyWebhookSignature sample_engine (Obj [(''event'', Str ''pix.received'')])
        (Str ''sha256=bad'') ''secret'' = Inr False
   \<and> http_status (response (POST_webhook sample_engine sample_utmfy sample_env Map.empty 0 0
        \<lparr> headers = [''x-signature'' \<mapsto> ''sha256=bad''],
          json = Inr (Obj [(''event'', Str ''pix.received'')]) \<rparr>)) = 401
   \<and> forwarded (POST_webhook sample_engine sample_utmfy sample_env Map.empty 0 0
        \<lparr> headers = [''x-signature'' \<mapsto> ''sha256=bad''],
          json = Inr (Obj [(''event'', Str ''pix.received'')]) \<rparr>) = []"
proof -
  let ?body = "Obj [(''event'', Str ''pix.received'')]"
  let ?req = "\<lparr> headers = [''x-signature'' \<mapsto> ''sha256=bad''], json = Inr ?body \<rparr>"
  have j: "json ?req = Inr ?body" by simp
  have g: "get ?body ''event'' = Inr (Str ''pix.received'')" by simp
  have s: "TREXPAY_SECRET sample_env = Some ''secret''" by (simp add: sample_env_def)
  have sig: "signatureToVerify ?req ?body = Str ''sha256=bad''"
    by (simp add: signatureToVerify_def header_signature_def header_def lor_def)
  obtain m where m: "JSON_stringify sample_engine ?body = Some m" by simp
  have v: "verifyWebhookSignature sample_engine ?body (Str ''sha256=bad'') ''secret'' = Inr False"
    using hex_digest_length_neq [of "''bad''"]
    by (simp add: verify_Str [OF m])
  show ?thesis
    using j g s sig v
      webhook_signature_handling [of ?req ?body "Str ''pix.received''" sample_env sample_engine
        sample_utmfy Map.empty 0 0]
    by simp
qed


lemma processPixInWebhook_data:
  assumes "get body ''data'' = Inr d" and "d \<noteq> Null" and "d \<noteq> Undefined"
  shows "\<exists>pixData. processPixInWebhook body = Inr pixData"
  using assms by (cases d) (auto simp: processPixInWebhook_def)


lemma process_event_other:
  assumes "field_of body ''event'' \<noteq> Str ''pix.received''"
  shows "process_event e c st t1 t2 body vs =
           \<lparr> response = success_response, requests = [], saved = [], forwarded = [],
             verifications = vs \<rparr>"
  using assms by (simp add: process_event_def success_response_def)

lemma process_event_received:
  assumes "field_of body ''event'' = Str ''pix.received''"
    and "processPixInWebhook body = Inr pixData"
  shows "process_event e c st t1 t2 body vs =
           \<lparr> response = success_response, requests = [], saved = [],
             forwarded = (if field_of pixData ''status'' = Str ''paid''
                          then forward (paid_order e c st t1 t2 pixData) else []),
             verifications = vs \<rparr>"
  using assms attribution_returns [of c "paid_order e c st t1 t2 pixData"]
  by (auto simp: process_event_def success_response_def)




section \<open>The gateway client\<close>

lemma requestBody_strings:
  assumes "customerDocument p = Str d" and "customerPhone p = Str ph"
  shows "\<exists>rb. requestBody token secret p = Inr rb"
  using assms by (simp add: requestBody_def formatDocument_def formatPhone_def)

lemma createPixDeposit_credentials:
  assumes "\<not> configured (TREXPAY_TOKEN ev) \<or> \<not> configured (TREXPAY_SECRET ev)"
  shows "createPixDeposit e ev fetch p =
           (Inr (deposit_failure (Str ''INVALID_CREDENTIALS'') (Str INVALID_CREDENTIALS_message)), [])"
  using assms by (auto simp: createPixDeposit_def configured_def split: option.splits)

lemma createPixDeposit_sends:
  assumes "TREXPAY_TOKEN ev = Some token" and "token \<noteq> []"
    and "TREXPAY_SECRET ev = Some secret" and "secret \<noteq> []"
    and "requestBody token secret p = Inr rb"
  shows "createPixDeposit e ev fetch p =
           (try_catch (deposit_try e fetch
               \<lparr> req_url = TREXPAY_BASE_URL @ ''/api/wallet/deposit/payment'',
                 req_body = JSON_stringify e rb \<rparr>)
             (\<lambda>error. Inr (deposit_failure (Str ''NETWORK_ERROR'')
                             (Str (NETWORK_ERROR_prefix @ message e error)))),
            [\<lparr> req_url = TREXPAY_BASE_URL @ ''/api/wallet/deposit/payment'',
               req_body = JSON_stringify e rb \<rparr>])"
  using assms by (simp add: createPixDeposit_def Let_def)

lemma try_catch_returns: "\<exists>r. try_catch body (\<lambda>error. Inr (h error)) = Inr r"
  by (cases body) simp_all

lemma createPixDeposit_never_raises:
  assumes "customerDocument p = Str d" and "customerPhone p = Str ph"
  shows "\<exists>r. fst (createPixDeposit e ev fetch p) = Inr r"
proof (cases "configured (TREXPAY_TOKEN ev) \<and> configured (TREXPAY_SECRET ev)")
  case False
  then show ?thesis by (simp add: createPixDeposit_credentials)
next
  case True
  then obtain token secret where c: "TREXPAY_TOKEN ev = Some token" "token \<noteq> []"
      "TREXPAY_SECRET ev = Some secret" "secret \<noteq> []"
    by (auto simp: configured_def split: option.splits)
  obtain rb where rb: "requestBody token secret p = Inr rb"
    using requestBody_strings [OF assms] by blast
  show ?thesis
    by (simp add: createPixDeposit_sends [OF c rb] try_catch_returns)
qed

lemma deposit_try_network:
  "fetch req = Inl x \<Longrightarrow> deposit_try e fetch req = Inl x"
  by (simp add: deposit_try_def)

lemma deposit_try_not_json:
  "fetch req = Inr (code, None) \<Longrightarrow>
   deposit_try e fetch req = Inr (deposit_failure (Str ''PARSE_ERROR'') (Str PARSE_ERROR_message))"
  by (simp add: deposit_try_def)

lemma deposit_try_http_error:
  assumes "fetch req = Inr (code, Some data)" and "\<not> ok code"
    and "data \<noteq> Null" and "data \<noteq> Undefined"
  shows "deposit_try e fetch req =
           Inr (deposit_failure
                  (lor (field_of data ''error'') (Str ''API_ERROR''))
                  (lor (lor (field_of data ''message'') (field_of data ''error''))
                       (Str (''Erro HTTP '' @ digits code))))"
  using assms
  by (cases data) (auto simp: deposit_try_def lor_def field_of_def)

lemma deposit_try_http_error_null:
  assumes "fetch req = Inr (code, Some Null)" and "\<not> ok code"
  shows "deposit_try e fetch req = Inl (NullProperty ''error'')"
  using assms by (simp add: deposit_try_def)

text \<open>
  C5 at its failing input: the gateway answers HTTP 500 with the body \<open>null\<close>. The body
  parses, the reading of \<open>data.error\<close> throws inside the \<open>try\<close>, and the result carries
  the category NETWORK_ERROR, where C5 has the generic API_ERROR.
\<close>

theorem createPixDeposit_null_error_body_is_network_error:
  "fst (createPixDeposit sample_engine sample_env (\<lambda>req. Inr (500, Some Null))
      \<lparr> amount = Num (Fin 50), customerName = Str ''Ana'', customerEmail = Str ''ana@example.com'',
        customerDocument = Str ''123.456.789-09'', customerPhone = Str ''(11) 91234-5678'',
        postbackUrl = ''http://localhost:3000/api/webhook/trexpay'',
        tracking_params = Undefined \<rparr>)
   = Inr (deposit_failure (Str ''NETWORK_ERROR'')
            (Str (NETWORK_ERROR_prefix @ error_text sample_engine (NullProperty ''error''))))"
proof -
  let ?p = "\<lparr> amount = Num (Fin 50), customerName = Str ''Ana'', customerEmail = Str ''ana@example.com'',
        customerDocument = Str ''123.456.789-09'', customerPhone = Str ''(11) 91234-5678'',
        postbackUrl = ''http://localhost:3000/api/webhook/trexpay'',
        tracking_params = Undefined \<rparr>"
  obtain rb where rb: "requestBody ''token'' ''secret'' ?p = Inr rb"
    using requestBody_strings [of ?p "''123.456.789-09''" "''(11) 91234-5678''" "''token''" "''secret''"]
    by auto
  have c: "TREXPAY_TOKEN sample_env = Some ''token''" "''token'' \<noteq> []"
      "TREXPAY_SECRET sample_env = Some ''secret''" "''secret'' \<noteq> []"
    by (simp_all add: sample_env_def)
  have "\<not> ok 500" by (simp add: ok_def)
  then show ?thesis
    by (simp add: createPixDeposit_sends [OF c rb] deposit_try_http_error_null message_def)
qed

section \<open>The create handler\<close>

lemma get_nonnull: "v \<noteq> Null \<Longrightarrow> v \<noteq> Undefined \<Longrightarrow> get v p = Inr (field_of v p)"
  by (cases v) (simp_all add: field_of_def)

lemma truthy_nonnull: "truthy v \<Longrightarrow> v \<noteq> Null \<and> v \<noteq> Undefined"
  by (cases v) simp_all

lemma lor_nonnull: "b \<noteq> Null \<Longrightarrow> b \<noteq> Undefined \<Longrightarrow> lor a b \<noteq> Null \<and> lor a b \<noteq> Undefined"
  using truthy_nonnull by (auto simp: lor_def)

lemma POST_create_accepted:
  assumes "req_json = Inr body" and "get body ''customer'' = Inr customer"
    and "passes_validation e body"
  shows "POST_create e c ev fetch rd req_json =
           create_order e c ev fetch rd (field_of body ''customer'') (field_of body ''items'')
             (field_of body ''total'') (field_of body ''trackingParams'')"
  using assms by (simp add: POST_create_def passes_validation_def Let_def)

lemma create_order_success:
  assumes "createPixDeposit e ev fetch (deposit_arguments ev customer total' tp) = (Inr r, reqs)"
    and "truthy (field_of r ''success'')"
  shows "response (create_order e c ev fetch rd customer items total' tp) =
           NextResponse_json
             (pix_created e rd (generateOrderId rd)
                (lor (field_of r ''idTransaction'') (Str (generateOrderId rd))) r) 200"
    and "forwarded (create_order e c ev fetch rd customer items total' tp) =
           forward (waiting_order e c rd customer items tp
                      (lor (field_of r ''idTransaction'') (Str (generateOrderId rd)))
                      (toCents e total'))"
    and "requests (create_order e c ev fetch rd customer items total' tp) = reqs"
proof -
  let ?built = "waiting_order e c rd customer items tp
                      (lor (field_of r ''idTransaction'') (Str (generateOrderId rd)))
                      (toCents e total')"
  obtain sent where a: "attribution c ?built = Inr sent"
    using attribution_returns by blast
  show "response (create_order e c ev fetch rd customer items total' tp) =
           NextResponse_json
             (pix_created e rd (generateOrderId rd)
                (lor (field_of r ''idTransaction'') (Str (generateOrderId rd))) r) 200"
    using assms a by (simp add: create_order_def Let_def)
  show "forwarded (create_order e c ev fetch rd customer items total' tp) = forward ?built"
    using assms a by (simp add: create_order_def Let_def)
  show "requests (create_order e c ev fetch rd customer items total' tp) = reqs"
    using assms a by (simp add: create_order_def Let_def)
qed

lemma create_order_response_independent:
  "response (create_order e c ev fetch rd customer items total' tp)
     = response (create_order e c' ev fetch rd customer items total' tp)"
proof (cases "createPixDeposit e ev fetch (deposit_arguments ev customer total' tp)")
  case (Pair result reqs)
  show ?thesis
  proof (cases result)
    case (Inl x)
    with Pair show ?thesis by (simp add: create_order_def Let_def)
  next
    case (Inr r)
    show ?thesis
    proof (cases "truthy (field_of r ''success'')")
      case True
      show ?thesis
        using create_order_success(1) [OF Pair [unfolded Inr] True] by simp
    next
      case False
      with Pair Inr show ?thesis by (simp add: create_order_def Let_def)
    qed
  qed
qed

lemma create_order_effects_independent:
  "requests (create_order e c ev fetch rd customer items total' tp)
     = requests (create_order e c' ev fetch rd customer items total' tp)
   \<and> saved (create_order e c ev fetch rd customer items total' tp)
     = saved (create_order e c' ev fetch rd customer items total' tp)"
  by (simp add: create_order_def Let_def split: prod.splits sum.splits)

lemma POST_create_response_independent:
  "response (POST_create e c ev fetch rd req_json) = response (POST_create e c' ev fetch rd req_json)"
  by (simp add: POST_create_def Let_def create_order_response_independent [of e c _ _ _ _ _ _ _ c']
        split: sum.splits)

lemma process_event_response_independent:
  "response (process_event e c st t1 t2 body vs) = response (process_event e c' st t1 t2 body vs)"
proof (cases "field_of body ''event'' = Str ''pix.received''")
  case False
  then show ?thesis by (simp add: process_event_other)
next
  case True
  show ?thesis
  proof (cases "processPixInWebhook body")
    case (Inl x)
    with True show ?thesis by (simp add: process_event_def)
  next
    case (Inr pixData)
    show ?thesis by (simp add: process_event_received [OF True Inr])
  qed
qed

lemma POST_webhook_response_independent:
  "response (POST_webhook e c ev st t1 t2 req) = response (POST_webhook e c' ev st t1 t2 req)"
  by (simp add: POST_webhook_def Let_def process_event_response_independent [of e c _ _ _ _ _ c']
        split: sum.splits)



lemma lor_m_Inr_lor: "lor_m (Inr a) (Inr b) = Inr (lor a b)"
  by (simp add: lor_def)

lemma lor_assoc: "lor (lor a b) c = lor a (lor b c)"
  by (simp add: lor_def)

lemma first_truthy3:
  assumes "v \<noteq> Null" and "v \<noteq> Undefined"
  shows "first_truthy v [a, b, c] = Inr (lor (field_of v a) (lor (field_of v b) (field_of v c)))"
  by (simp add: get_nonnull [OF assms] lor_m_Inr_lor del: lor_m_Inr)

lemma first_truthy5:
  assumes "v \<noteq> Null" and "v \<noteq> Undefined"
  shows "first_truthy v [a, b, c, d, f] =
           Inr (lor (field_of v a) (lor (field_of v b) (lor (field_of v c)
                  (lor (field_of v d) (field_of v f)))))"
  by (simp add: get_nonnull [OF assms] lor_m_Inr_lor del: lor_m_Inr)

text \<open>The success result of createPixDeposit, read off the gateway's reply.\<close>

lemma deposit_try_success:
  assumes "fetch req = Inr (code, Some data)" and "ok code"
    and "data \<noteq> Null" and "data \<noteq> Undefined"
  shows "\<exists>r. deposit_try e fetch req = Inr r
           \<and> field_of r ''success'' = Bool True
           \<and> field_of r ''idTransaction'' =
                lor (field_of (lor (field_of data ''data'') data) ''idTransaction'')
                 (lor (field_of (lor (field_of data ''data'') data) ''id_transaction'')
                   (lor (field_of (lor (field_of data ''data'') data) ''id'')
                        (field_of data ''idTransaction'')))
           \<and> field_of r ''expiresAt'' =
                lor (field_of (lor (field_of data ''data'') data) ''expiresAt'')
                 (lor (field_of (lor (field_of data ''data'') data) ''expires_at'')
                      (field_of (lor (field_of data ''data'') data) ''expiration''))"
proof -
  have nn: "lor (field_of data ''data'') data \<noteq> Null"
      "lor (field_of data ''data'') data \<noteq> Undefined"
    using lor_nonnull [OF assms(3,4)] by simp_all
  show ?thesis
    using assms(1,2)
    by (simp add: deposit_try_def get_nonnull [OF nn] get_nonnull [OF assms(3,4)]
          lor_m_Inr_lor lor_assoc del: lor_m_Inr)
qed

lemma createPixDeposit_success:
  assumes "configured (TREXPAY_TOKEN ev)" and "configured (TREXPAY_SECRET ev)"
    and "customerDocument p = Str d" and "customerPhone p = Str ph"
    and "ok code" and "data \<noteq> Null" and "data \<noteq> Undefined"
  shows "\<exists>r reqs. createPixDeposit e ev (\<lambda>req. Inr (code, Some data)) p = (Inr r, reqs)
           \<and> field_of r ''success'' = Bool True
           \<and> field_of r ''idTransaction'' =
                lor (field_of (lor (field_of data ''data'') data) ''idTransaction'')
                 (lor (field_of (lor (field_of data ''data'') data) ''id_transaction'')
                   (lor (field_of (lor (field_of data ''data'') data) ''id'')
                        (field_of data ''idTransaction'')))
           \<and> field_of r ''expiresAt'' =
                lor (field_of (lor (field_of data ''data'') data) ''expiresAt'')
                 (lor (field_of (lor (field_of data ''data'') data) ''expires_at'')
                      (field_of (lor (field_of data ''data'') data) ''expiration''))"
proof -
  obtain token secret where c: "TREXPAY_TOKEN ev = Some token" "token \<noteq> []"
      "TREXPAY_SECRET ev = Some secret" "secret \<noteq> []"
    using assms(1,2) by (auto simp: configured_def split: option.splits)
  obtain rb where rb: "requestBody token secret p = Inr rb"
    using requestBody_strings [OF assms(3,4)] by blast
  let ?req = "\<lparr> req_url = TREXPAY_BASE_URL @ ''/api/wallet/deposit/payment'',
                 req_body = JSON_stringify e rb \<rparr>"
  have f: "(\<lambda>req. Inr (code, Some data)) ?req = Inr (code, Some data)" by simp
  obtain r where r: "deposit_try e (\<lambda>req. Inr (code, Some data)) ?req = Inr r"
    and rest: "field_of r ''success'' = Bool True"
      "field_of r ''idTransaction'' =
                lor (field_of (lor (field_of data ''data'') data) ''idTransaction'')
                 (lor (field_of (lor (field_of data ''data'') data) ''id_transaction'')
                   (lor (field_of (lor (field_of data ''data'') data) ''id'')
                        (field_of data ''idTransaction'')))"
      "field_of r ''expiresAt'' =
                lor (field_of (lor (field_of data ''data'') data) ''expiresAt'')
                 (lor (field_of (lor (field_of data ''data'') data) ''expires_at'')
                      (field_of (lor (field_of data ''data'') data) ''expiration''))"
    using deposit_try_success [OF f assms(5,6,7), of e] by blast
  have "createPixDeposit e ev (\<lambda>req. Inr (code, Some data)) p = (Inr r, [?req])"
    by (simp add: createPixDeposit_sends [OF c rb] r)
  with rest show ?thesis by blast
qed



lemma deposit_arguments_strings:
  assumes "field_of customer ''cpf'' = Str d" and "field_of customer ''phone'' = Str ph"
  shows "customerDocument (deposit_arguments ev customer total' tp) = Str d"
    and "customerPhone (deposit_arguments ev customer total' tp) = Str ph"
  using assms by (simp_all add: deposit_arguments_def)

text \<open>A request that passes the validations and that the gateway accepts is answered 200.\<close>

lemma POST_create_gateway_success:
  assumes "req_json = Inr body" and "get body ''customer'' = Inr customer"
    and "passes_validation e body"
    and "configured (TREXPAY_TOKEN ev)" and "configured (TREXPAY_SECRET ev)"
    and "field_of customer ''cpf'' = Str d" and "field_of customer ''phone'' = Str ph"
    and "ok code" and "data \<noteq> Null" and "data \<noteq> Undefined"
  shows "\<exists>r reqs.
           createPixDeposit e ev (\<lambda>req. Inr (code, Some data))
               (deposit_arguments ev customer (field_of body ''total'') (field_of body ''trackingParams''))
             = (Inr r, reqs)
           \<and> field_of r ''success'' = Bool True
           \<and> field_of r ''idTransaction'' =
                lor (field_of (lor (field_of data ''data'') data) ''idTransaction'')
                 (lor (field_of (lor (field_of data ''data'') data) ''id_transaction'')
                   (lor (field_of (lor (field_of data ''data'') data) ''id'')
                        (field_of data ''idTransaction'')))
           \<and> field_of r ''expiresAt'' =
                lor (field_of (lor (field_of data ''data'') data) ''expiresAt'')
                 (lor (field_of (lor (field_of data ''data'') data) ''expires_at'')
                      (field_of (lor (field_of data ''data'') data) ''expiration''))
           \<and> response (POST_create e c ev (\<lambda>req. Inr (code, Some data)) rd req_json) =
                NextResponse_json
                  (pix_created e rd (generateOrderId rd)
                     (lor (field_of r ''idTransaction'') (Str (generateOrderId rd))) r) 200"
proof -
  have cu: "field_of body ''customer'' = customer"
    by (rule get_field_of [OF assms(2)])
  let ?p = "deposit_arguments ev customer (field_of body ''total'') (field_of body ''trackingParams'')"
  obtain r reqs where r: "createPixDeposit e ev (\<lambda>req. Inr (code, Some data)) ?p = (Inr r, reqs)"
    and s: "field_of r ''success'' = Bool True"
    and rest: "field_of r ''idTransaction'' =
                lor (field_of (lor (field_of data ''data'') data) ''idTransaction'')
                 (lor (field_of (lor (field_of data ''data'') data) ''id_transaction'')
                   (lor (field_of (lor (field_of data ''data'') data) ''id'')
                        (field_of data ''idTransaction'')))"
      "field_of r ''expiresAt'' =
                lor (field_of (lor (field_of data ''data'') data) ''expiresAt'')
                 (lor (field_of (lor (field_of data ''data'') data) ''expires_at'')
                      (field_of (lor (field_of data ''data'') data) ''expiration''))"
    using createPixDeposit_success [OF assms(4,5) deposit_arguments_strings [OF assms(6,7)]
             assms(8,9,10)]
    by blast
  have t: "truthy (field_of r ''success'')" by (simp add: s)
  have "response (POST_create e c ev (\<lambda>req. Inr (code, Some data)) rd req_json) =
          NextResponse_json
            (pix_created e rd (generateOrderId rd)
               (lor (field_of r ''idTransaction'') (Str (generateOrderId rd))) r) 200"
    using create_order_success(1) [OF r t]
    by (simp add: POST_create_accepted [OF assms(1,2,3)] cu)
  with r s rest show ?thesis by blast
qed





lemma sample_order_valid:
  "get sample_order ''customer'' =
     Inr (Obj [(''name'', Str ''Ana''), (''email'', Str ''ana@example.com''),
               (''cpf'', Str ''123.456.789-09''), (''phone'', Str ''(11) 91234-5678'')])"
  "passes_validation sample_engine sample_order"
  by (simp_all add: sample_order_def passes_validation_def)

lemma sample_env_configured:
  "configured (TREXPAY_TOKEN sample_env)" "configured (TREXPAY_SECRET sample_env)"
  by (simp_all add: sample_env_def configured_def)




section \<open>Minor units\<close>

lemma ilog2_numeral:
  "ilog2 (numeral k) = (if numeral k < (2::int) then 0 else 1 + ilog2 (numeral k div 2))"
  by (rule ilog2.simps)

lemma ilog2_0: "ilog2 0 = 0"
  by (simp add: ilog2.simps)

lemma ilog2_1: "ilog2 1 = 0"
  by (simp add: ilog2.simps)

lemma floor_rat_numeral: "\<lfloor>(numeral a / numeral b :: rat)\<rfloor> = numeral a div numeral b"
  using floor_divide_of_int_eq [of "numeral a" "numeral b", where ?'a = rat] by simp

lemmas eval_double =
  to_double_def floor_log2_def pow2_def round_half_even_def Let_def
  ilog2_numeral ilog2_0 ilog2_1 floor_rat_numeral

lemma double_19_9: "to_double (199 / 10) = Fin (2800676018271027 / 140737488355328)"
  by (simp add: eval_double)

lemma double_19_9_times_100:
  "mul (Fin (2800676018271027 / 140737488355328)) (Fin 100) = Fin (8752112557096959 / 4398046511104)"
  by (simp add: eval_double)

lemma double_0_005: "to_double (5 / 1000) = Fin (5764607523034235 / 1152921504606846976)"
  by (simp add: eval_double)

lemma double_0_005_times_100:
  "mul (Fin (5764607523034235 / 1152921504606846976)) (Fin 100) = Fin (1 / 2)"
  by (simp add: eval_double)

lemma toCents_19_9: "toCents e (Num (to_double (199 / 10))) = Num (Fin 1990)"
proof -
  have "toCents e (Num (to_double (199 / 10)))
          = Num (Math_round (mul (to_double (199 / 10)) (Fin 100)))"
    by (simp only: toCents_def ToNumber.simps)
  also have "\<dots> = Num (Math_round (Fin (8752112557096959 / 4398046511104)))"
    by (simp only: double_19_9 double_19_9_times_100)
  also have "\<dots> = Num (Fin 1990)"
    by (simp add: floor_rat_numeral)
  finally show ?thesis .
qed

lemma toCents_0_005: "toCents e (Num (to_double (5 / 1000))) = Num (Fin 1)"
proof -
  have "toCents e (Num (to_double (5 / 1000)))
          = Num (Math_round (mul (to_double (5 / 1000)) (Fin 100)))"
    by (simp only: toCents_def ToNumber.simps)
  also have "\<dots> = Num (Math_round (Fin (1 / 2)))"
    by (simp only: double_0_005 double_0_005_times_100)
  also have "\<dots> = Num (Fin 1)"
    by simp
  finally show ?thesis .
qed

lemma map_m_prices:
  assumes "map_m (product e) xs = Inr ps"
  shows "map (\<lambda>p. field_of p ''priceInCents'') ps = map (\<lambda>item. toCents e (field_of item ''price'')) xs"
  using assms
proof (induction xs arbitrary: ps)
  case Nil
  then show ?case by simp
next
  case (Cons x xs)
  from Cons.prems obtain y ys where y: "product e x = Inr y" and ys: "map_m (product e) xs = Inr ys"
    and ps: "ps = y # ys"
    by (auto simp: bind_def split: sum.splits)
  have "field_of y ''priceInCents'' = toCents e (field_of x ''price'')"
    using y by (auto simp: product_def bind_def lor_m_def field_of_def split: sum.splits if_splits)
  with Cons.IH [OF ys] ps show ?case by simp
qed

lemma products_prices:
  assumes "products e items = Inr v"
  shows "\<exists>xs ps. items = Arr xs \<and> v = Arr ps
           \<and> map (\<lambda>p. field_of p ''priceInCents'') ps
               = map (\<lambda>item. toCents e (field_of item ''price'')) xs"
  using assms map_m_prices
  by (cases items) (auto simp: products_def bind_def split: sum.splits)

lemma waiting_order_amounts:
  assumes "waiting_order e c rd customer items tp tid cents = Inr order"
  shows "field_of (field_of order ''commission'') ''totalPriceInCents'' = cents
         \<and> field_of (field_of order ''commission'') ''userCommissionInCents'' = cents
         \<and> (\<exists>xs ps. items = Arr xs \<and> field_of order ''products'' = Arr ps
               \<and> map (\<lambda>p. field_of p ''priceInCents'') ps
                   = map (\<lambda>item. toCents e (field_of item ''price'')) xs)"
proof -
  from assms obtain v where v: "products e items = Inr v"
    and f: "field_of order ''products'' = v"
      "field_of (field_of order ''commission'') ''totalPriceInCents'' = cents"
      "field_of (field_of order ''commission'') ''userCommissionInCents'' = cents"
    by (auto simp: waiting_order_def bind_def split: sum.splits)
  show ?thesis using products_prices [OF v] f by auto
qed

lemma forwarded_create_order:
  assumes "order \<in> set (forwarded (create_order e c ev fetch rd customer items total' tp))"
  shows "\<exists>tid. waiting_order e c rd customer items tp tid (toCents e total') = Inr order"
  using assms
  by (auto simp: create_order_def Let_def forward_def split: prod.splits sum.splits if_splits)

lemma forwarded_POST_create:
  assumes "order \<in> set (forwarded (POST_create e c ev fetch rd (Inr body)))"
  shows "\<exists>tid. waiting_order e c rd (field_of body ''customer'') (field_of body ''items'')
                 (field_of body ''trackingParams'') tid (toCents e (field_of body ''total'')) = Inr order"
proof -
  have "order \<in> set (forwarded (create_order e c ev fetch rd (field_of body ''customer'')
          (field_of body ''items'') (field_of body ''total'') (field_of body ''trackingParams'')))"
    using assms
    by (auto simp: POST_create_def Let_def silent_def bind_def split: sum.splits if_splits)
  then show ?thesis by (rule forwarded_create_order)
qed

lemma paid_order_amounts:
  assumes "paid_order e c st t1 t2 pixData = Inr order"
  shows "field_of (field_of order ''commission'') ''totalPriceInCents''
           = Num (Math_round (mul (ToNumber e (field_of pixData ''amount'')) (Fin 100)))
         \<and> field_of (field_of order ''commission'') ''userCommissionInCents''
           = Num (Math_round (mul (ToNumber e (field_of pixData ''amount'')) (Fin 100)))
         \<and> map (\<lambda>p. field_of p ''priceInCents'')
               (case field_of order ''products'' of Arr ps \<Rightarrow> ps | _ \<Rightarrow> [])
           = [Num (Math_round (mul (ToNumber e (field_of pixData ''amount'')) (Fin 100)))]"
  using assms
  by (auto simp: paid_order_def Let_def bind_def split: sum.splits)

lemma processPixInWebhook_amount:
  assumes "processPixInWebhook body = Inr pixData"
  shows "field_of pixData ''amount'' = field_of (field_of body ''data'') ''amount''"
  using assms
  by (auto simp: processPixInWebhook_def bind_def field_of_def split: sum.splits)

lemma forwarded_process_event:
  assumes "order \<in> set (forwarded (process_event e c st t1 t2 body vs))"
  shows "\<exists>pixData. processPixInWebhook body = Inr pixData
           \<and> paid_order e c st t1 t2 pixData = Inr order"
  using assms
  by (auto simp: process_event_def forward_def split: sum.splits if_splits)

lemma forwarded_POST_webhook:
  assumes "order \<in> set (forwarded (POST_webhook e c ev st t1 t2 req))" and "json req = Inr body"
  shows "\<exists>pixData. processPixInWebhook body = Inr pixData
           \<and> paid_order e c st t1 t2 pixData = Inr order"
proof -
  have "\<exists>vs. order \<in> set (forwarded (process_event e c st t1 t2 body vs))"
    using assms
    by (auto simp: POST_webhook_def Let_def bind_def split: sum.splits if_splits)
  then show ?thesis using forwarded_process_event by blast
qed


text \<open>
  C8: toCents is \<open>Math.round(value * 100)\<close> in double arithmetic; \<open>toCents(19.9)\<close> is
  1990 (the product is the double just below 1990, which \<open>Math.round\<close> takes to 1990);
  \<open>toCents(0.005)\<close> is 1 (the product is exactly 0.5, and \<open>Math.round\<close> takes a tie
  upwards: the convention is half-up). In
  every order handed to the attribution service, each amount in minor units is the single
  conversion of the amount in major units it comes from: in the create handler the total
  (both commission fields) and each item price; in the webhook receiver the amount of the
  payload (both commission fields and the one product).
\<close>

theorem minor_units_converted_once:
  "toCents e v = Num (Math_round (mul (ToNumber e v) (Fin 100)))
   \<and> toCents e (Num (to_double (199 / 10))) = Num (Fin 1990)
   \<and> toCents e (Num (to_double (5 / 1000))) = Num (Fin 1)
   \<and> (\<forall>order \<in> set (forwarded (POST_create e c ev fetch rd (Inr body))).
         field_of (field_of order ''commission'') ''totalPriceInCents''
           = toCents e (field_of body ''total'')
         \<and> field_of (field_of order ''commission'') ''userCommissionInCents''
           = toCents e (field_of body ''total'')
         \<and> (\<exists>xs ps. field_of body ''items'' = Arr xs \<and> field_of order ''products'' = Arr ps
               \<and> map (\<lambda>p. field_of p ''priceInCents'') ps
                   = map (\<lambda>item. toCents e (field_of item ''price'')) xs))
   \<and> (\<forall>order \<in> set (forwarded (POST_webhook e c ev st t1 t2 req)). \<forall>payload.
         json req = Inr payload \<longrightarrow>
           field_of (field_of order ''commission'') ''totalPriceInCents''
             = Num (Math_round (mul (ToNumber e (field_of (field_of payload ''data'') ''amount'')) (Fin 100)))
           \<and> field_of (field_of order ''commission'') ''userCommissionInCents''
             = Num (Math_round (mul (ToNumber e (field_of (field_of payload ''data'') ''amount'')) (Fin 100)))
           \<and> map (\<lambda>p. field_of p ''priceInCents'')
                 (case field_of order ''products'' of Arr ps \<Rightarrow> ps | _ \<Rightarrow> [])
             = [Num (Math_round (mul (ToNumber e (field_of (field_of payload ''data'') ''amount'')) (Fin 100)))])"
proof (intro conjI ballI allI impI)
  show "toCents e v = Num (Math_round (mul (ToNumber e v) (Fin 100)))"
    by (simp only: toCents_def)
  show "toCents e (Num (to_double (199 / 10))) = Num (Fin 1990)"
    by (rule toCents_19_9)
  show "toCents e (Num (to_double (5 / 1000))) = Num (Fin 1)"
    by (rule toCents_0_005)
next
  fix order
  assume "order \<in> set (forwarded (POST_create e c ev fetch rd (Inr body)))"
  then obtain tid where w: "waiting_order e c rd (field_of body ''customer'') (field_of body ''items'')
      (field_of body ''trackingParams'') tid (toCents e (field_of body ''total'')) = Inr order"
    using forwarded_POST_create by blast
  note a = waiting_order_amounts [OF w]
  show "field_of (field_of order ''commission'') ''totalPriceInCents'' = toCents e (field_of body ''total'')"
    using a by blast
  show "field_of (field_of order ''commission'') ''userCommissionInCents'' = toCents e (field_of body ''total'')"
    using a by blast
  show "\<exists>xs ps. field_of body ''items'' = Arr xs \<and> field_of order ''products'' = Arr ps
               \<and> map (\<lambda>p. field_of p ''priceInCents'') ps
                   = map (\<lambda>item. toCents e (field_of item ''price'')) xs"
    using a by blast
next
  fix order payload
  assume o: "order \<in> set (forwarded (POST_webhook e c ev st t1 t2 req))"
    and j: "json req = Inr payload"
  obtain pixData where p: "processPixInWebhook payload = Inr pixData"
    and b: "paid_order e c st t1 t2 pixData = Inr order"
    using forwarded_POST_webhook [OF o j] by blast
  note a = paid_order_amounts [OF b, unfolded processPixInWebhook_amount [OF p]]
  show "field_of (field_of order ''commission'') ''totalPriceInCents''
             = Num (Math_round (mul (ToNumber e (field_of (field_of payload ''data'') ''amount'')) (Fin 100)))"
    using a by blast
  show "field_of (field_of order ''commission'') ''userCommissionInCents''
             = Num (Math_round (mul (ToNumber e (field_of (field_of payload ''data'') ''amount'')) (Fin 100)))"
    using a by blast
  show "map (\<lambda>p. field_of p ''priceInCents'')
                 (case field_of order ''products'' of Arr ps \<Rightarrow> ps | _ \<Rightarrow> [])
             = [Num (Math_round (mul (ToNumber e (field_of (field_of payload ''data'') ''amount'')) (Fin 100)))]"
    using a by blast
qed

section \<open>Attribution failures\<close>

lemma toCents_20: "toCents e (Num (Fin 20)) = Num (Fin 2000)"
  by (simp add: toCents_def eval_double)

lemma sample_order_forwarded:
  assumes "ok code" and "data \<noteq> Null" and "data \<noteq> Undefined"
  shows "\<exists>order. forwarded (POST_create sample_engine c sample_env (\<lambda>req. Inr (code, Some data))
                      sample_readings (Inr sample_order)) = [order]
           \<or> (\<exists>x. formatUtmfyDate c (DateAt (created_time sample_readings)) = Inl x)"
proof -
  let ?customer = "Obj [(''name'', Str ''Ana''), (''email'', Str ''ana@example.com''),
               (''cpf'', Str ''123.456.789-09''), (''phone'', Str ''(11) 91234-5678'')]"
  have cu: "field_of sample_order ''customer'' = ?customer" by (simp add: sample_order_def)
  have st: "customerDocument (deposit_arguments sample_env ?customer (field_of sample_order ''total'')
              (field_of sample_order ''trackingParams'')) = Str ''123.456.789-09''"
      "customerPhone (deposit_arguments sample_env ?customer (field_of sample_order ''total'')
              (field_of sample_order ''trackingParams'')) = Str ''(11) 91234-5678''"
    by (simp_all add: deposit_arguments_def)
  obtain r reqs where r: "createPixDeposit sample_engine sample_env (\<lambda>req. Inr (code, Some data))
       (deposit_arguments sample_env ?customer (field_of sample_order ''total'')
              (field_of sample_order ''trackingParams'')) = (Inr r, reqs)"
    and s: "field_of r ''success'' = Bool True"
    using createPixDeposit_success [OF sample_env_configured st assms] by blast
  have t: "truthy (field_of r ''success'')" by (simp add: s)
  have f: "forwarded (POST_create sample_engine c sample_env (\<lambda>req. Inr (code, Some data))
                      sample_readings (Inr sample_order))
           = forward (waiting_order sample_engine c sample_readings ?customer
                (field_of sample_order ''items'') (field_of sample_order ''trackingParams'')
                (lor (field_of r ''idTransaction'') (Str (generateOrderId sample_readings)))
                (toCents sample_engine (field_of sample_order ''total'')))"
    using create_order_success(2) [OF r t]
    by (simp add: POST_create_accepted [OF refl sample_order_valid] cu)
  show ?thesis
    unfolding f
    by (cases "formatUtmfyDate c (DateAt (created_time sample_readings))")
       (auto simp: forward_def waiting_order_def sample_order_def digits_or_null_def
          products_def product_def lor_m_Inr_lor simp del: lor_m_Inr)
qed

text \<open>
  C7: the response of the create handler and the response of the webhook receiver do not
  depend on what the attribution library does: with any two behaviours of formatUtmfyDate
  and sendOrderToUtmfy (returning, throwing, rejecting) the handler answers the same, and
  the create handler sends the same gateway requests and saves the same tracking
  parameters. So where the response is 200 with the PIX payload, or 200 with
  \<open>success: true\<close>, it stays so when the attribution send raises or fails.
\<close>

theorem attribution_failure_keeps_response:
  "response (POST_create e c ev fetch rd req_json) = response (POST_create e c' ev fetch rd req_json)
   \<and> requests (POST_create e c ev fetch rd req_json) = requests (POST_create e c' ev fetch rd req_json)
   \<and> saved (POST_create e c ev fetch rd req_json) = saved (POST_create e c' ev fetch rd req_json)
   \<and> response (POST_webhook e c ev st t1 t2 req) = response (POST_webhook e c' ev st t1 t2 req)"
proof (intro conjI)
  show "response (POST_create e c ev fetch rd req_json) = response (POST_create e c' ev fetch rd req_json)"
    by (rule POST_create_response_independent)
  show "response (POST_webhook e c ev st t1 t2 req) = response (POST_webhook e c' ev st t1 t2 req)"
    by (rule POST_webhook_response_independent)
  show "requests (POST_create e c ev fetch rd req_json) = requests (POST_create e c' ev fetch rd req_json)"
    using create_order_effects_independent [of e c ev fetch rd _ _ _ _ c']
    by (simp add: POST_create_def Let_def silent_def split: sum.splits)
  show "saved (POST_create e c ev fetch rd req_json) = saved (POST_create e c' ev fetch rd req_json)"
    using create_order_effects_independent [of e c ev fetch rd _ _ _ _ c']
    by (simp add: POST_create_def Let_def silent_def split: sum.splits)
qed


theorem attribution_failure_keeps_response_witness:
  "map (sendOrderToUtmfy failing_utmfy)
       (forwarded (POST_create sample_engine failing_utmfy sample_env
          (\<lambda>req. Inr (200, Some (Obj [(''qrCode'', Str ''00020126'')]))) sample_readings
          (Inr sample_order)))
     = [Inl (Rejected ''attribution service unreachable'')]
   \<and> response (POST_create sample_engine failing_utmfy sample_env
          (\<lambda>req. Inr (200, Some (Obj [(''qrCode'', Str ''00020126'')]))) sample_readings
          (Inr sample_order))
     = response (POST_create sample_engine sample_utmfy sample_env
          (\<lambda>req. Inr (200, Some (Obj [(''qrCode'', Str ''00020126'')]))) sample_readings
          (Inr sample_order))
   \<and> http_status (response (POST_create sample_engine failing_utmfy sample_env
          (\<lambda>req. Inr (200, Some (Obj [(''qrCode'', Str ''00020126'')]))) sample_readings
          (Inr sample_order))) = 200
   \<and> field_of (json_body (response (POST_create sample_engine failing_utmfy sample_env
          (\<lambda>req. Inr (200, Some (Obj [(''qrCode'', Str ''00020126'')]))) sample_readings
          (Inr sample_order)))) ''success'' = Bool True
   \<and> response (POST_webhook sample_engine failing_utmfy sample_env Map.empty 0 0
          \<lparr> headers = (\<lambda>name. None),
            json = Inr (Obj [(''event'', Str ''pix.received''),
                             (''data'', Obj [(''idTransaction'', Str ''T1''), (''status'', Str ''paid''),
                                             (''amount'', Num (Fin 20))])]) \<rparr>)
     = success_response"
proof -
  let ?data = "Obj [(''qrCode'', Str ''00020126'')]"
  let ?customer = "Obj [(''name'', Str ''Ana''), (''email'', Str ''ana@example.com''),
               (''cpf'', Str ''123.456.789-09''), (''phone'', Str ''(11) 91234-5678'')]"
  let ?out = "POST_create sample_engine failing_utmfy sample_env (\<lambda>req. Inr (200, Some ?data))
                sample_readings (Inr sample_order)"
  have k: "ok 200" by (simp add: ok_def)
  have n: "?data \<noteq> Null" "?data \<noteq> Undefined" by simp_all
  obtain order where f: "forwarded ?out = [order]"
    using sample_order_forwarded [OF k n, of failing_utmfy] by (auto simp: failing_utmfy_def)
  have a: "map (sendOrderToUtmfy failing_utmfy) (forwarded ?out)
             = [Inl (Rejected ''attribution service unreachable'')]"
    unfolding f by (simp add: failing_utmfy_def)
  have c: "field_of ?customer ''cpf'' = Str ''123.456.789-09''"
      "field_of ?customer ''phone'' = Str ''(11) 91234-5678''"
    by simp_all
  obtain r where resp: "response ?out = NextResponse_json
                  (pix_created sample_engine sample_readings (generateOrderId sample_readings)
                     (lor (field_of r ''idTransaction'') (Str (generateOrderId sample_readings))) r) 200"
    using POST_create_gateway_success [OF refl sample_order_valid sample_env_configured c k n,
            of failing_utmfy sample_readings]
    by blast
  have b: "http_status (response ?out) = 200"
      "field_of (json_body (response ?out)) ''success'' = Bool True"
    by (simp_all add: resp NextResponse_json_def pix_created_def)
  have w: "response (POST_webhook sample_engine failing_utmfy sample_env Map.empty 0 0
          \<lparr> headers = (\<lambda>name. None),
            json = Inr (Obj [(''event'', Str ''pix.received''),
                             (''data'', Obj [(''idTransaction'', Str ''T1''), (''status'', Str ''paid''),
                                             (''amount'', Num (Fin 20))])]) \<rparr>)
     = success_response"
    by (simp add: eval_webhook attribution_def paid_order_def failing_utmfy_def Let_def
          success_response_def)
  show ?thesis
    using a b w
      attribution_failure_keeps_response [of sample_engine failing_utmfy sample_env
        "\<lambda>req. Inr (200, Some ?data)" sample_readings "Inr sample_order" sample_utmfy]
    by blast
qed


theorem minor_units_converted_once_witness:
  "map (\<lambda>order. field_of (field_of order ''commission'') ''totalPriceInCents'')
       (forwarded (POST_create sample_engine sample_utmfy sample_env
          (\<lambda>req. Inr (200, Some (Obj [(''qrCode'', Str ''00020126'')]))) sample_readings
          (Inr sample_order)))
     = [Num (Fin 2000)]
   \<and> map (\<lambda>order. field_of (field_of order ''commission'') ''totalPriceInCents'')
       (forwarded (POST_webhook sample_engine sample_utmfy sample_env Map.empty 0 0
          \<lparr> headers = (\<lambda>name. None),
            json = Inr (Obj [(''event'', Str ''pix.received''),
                             (''data'', Obj [(''idTransaction'', Str ''T1''), (''status'', Str ''paid''),
                                             (''amount'', Num (Fin 20))])]) \<rparr>))
     = [Num (Fin 2000)]"
proof -
  let ?data = "Obj [(''qrCode'', Str ''00020126'')]"
  let ?out = "POST_create sample_engine sample_utmfy sample_env (\<lambda>req. Inr (200, Some ?data))
                sample_readings (Inr sample_order)"
  let ?payload = "Obj [(''event'', Str ''pix.received''),
                       (''data'', Obj [(''idTransaction'', Str ''T1''), (''status'', Str ''paid''),
                                       (''amount'', Num (Fin 20))])]"
  let ?req = "\<lparr> headers = (\<lambda>name. None), json = Inr ?payload \<rparr>"
  let ?hook = "POST_webhook sample_engine sample_utmfy sample_env Map.empty 0 0 ?req"
  have k: "ok 200" by (simp add: ok_def)
  have n: "?data \<noteq> Null" "?data \<noteq> Undefined" by simp_all
  obtain order where f: "forwarded ?out = [order]"
    using sample_order_forwarded [OF k n, of sample_utmfy] by (auto simp: sample_utmfy_def)
  obtain paid where g: "forwarded ?hook = [paid]"
    by (simp add: eval_webhook attribution_def forward_def paid_order_def sample_utmfy_def Let_def)
  have t: "field_of sample_order ''total'' = Num (Fin 20)"
      "field_of (field_of ?payload ''data'') ''amount'' = Num (Fin 20)"
    by (simp_all add: sample_order_def)
  have j: "json ?req = Inr ?payload" by simp
  note m = minor_units_converted_once [of sample_engine "Num (Fin 20)" sample_utmfy sample_env
        "\<lambda>req. Inr (200, Some ?data)" sample_readings sample_order Map.empty 0 0 ?req]
  have "field_of (field_of order ''commission'') ''totalPriceInCents''
          = toCents sample_engine (Num (Fin 20))"
    using m f t(1) by simp
  moreover have "field_of (field_of paid ''commission'') ''totalPriceInCents''
          = toCents sample_engine (Num (Fin 20))"
    using m g j t(2) by (simp add: toCents_def)
  ultimately show ?thesis
    by (simp add: f g toCents_20)
qed

end
